theory Spec2Isabelle
  imports
    Complex_Main
    "HOL-Library.Sublist"
    "HOL-Library.Char_ord"
    "HOL-Library.List_Lexorder"
    "HOL-Library.Log_Nat"
    "HOL-Library.Multiset"
begin

section \<open>Record tables\<close>

text \<open>
  The two pages (\<^verbatim>\<open>card_tracker.py\<close> and \<^verbatim>\<open>pages/01_...py\<close>) work on pandas
  DataFrames fetched from a spreadsheet. A cell is missing (\<open>NaN\<close>, or \<open>NaT\<close> after a
  date coercion), a text, or another scalar: \<open>Num\<close> stands for every non-text value the
  sheet parser produces (integers, floats, booleans) and \<open>Timestamp\<close> for a parsed date
  in nanoseconds. Python strings are \<open>string\<close>s; text outside ASCII is written as its
  UTF-8 bytes, which keeps equality, substring search and the code point order.
\<close>

datatype 'n cell = NaN | NaT | Str string | Num 'n | Timestamp int

fun isna :: "'n cell \<Rightarrow> bool" where
  "isna NaN = True"
| "isna NaT = True"
| "isna _ = False"

text \<open>
  A DataFrame: the column labels, the storage type of each column (\<open>df.dtypes\<close>) and the
  rows, each holding one cell per column in column order. Row labels (the index) are
  never read by the two pages and are left out.
\<close>

record 'n dataframe =
  columns :: "string list"
  dtypes :: "string list"
  rows :: "'n cell list list"

definition DataFrame :: "'n dataframe" where
  \<comment> \<open>\<^verbatim>\<open>pd.DataFrame()\<close>\<close>
  "DataFrame = \<lparr>columns = [], dtypes = [], rows = []\<rparr>"

definition df_empty :: "'n dataframe \<Rightarrow> bool" where
  \<comment> \<open>\<^verbatim>\<open>df.empty\<close>: some axis has length 0\<close>
  "df_empty df \<longleftrightarrow> columns df = [] \<or> rows df = []"

datatype exn =
  re_error | KeyError | ValueError | TypeError | AttributeError | ZeroDivisionError
| StreamlitAPIException | OtherException

fun astype_str :: "('n cell \<Rightarrow> string) \<Rightarrow> 'n cell \<Rightarrow> string" where
  \<comment> \<open>\<^verbatim>\<open>Series.astype(str)\<close> on one element, as pandas 1 and 2 do it: every element goes
      through \<^verbatim>\<open>str\<close>, and \<^verbatim>\<open>str(float('nan'))\<close> is \<^verbatim>\<open>'nan'\<close>\<close>
  "astype_str f NaN = ''nan''"
| "astype_str f NaT = ''NaT''"
| "astype_str f (Str s) = s"
| "astype_str f c = f c"

definition getitem_mask :: "'n dataframe \<Rightarrow> bool list \<Rightarrow> 'n dataframe" where
  \<comment> \<open>\<^verbatim>\<open>df[mask]\<close> for a boolean mask aligned with the rows\<close>
  "getitem_mask df msk = df\<lparr>rows := map fst (filter snd (zip (rows df) msk))\<rparr>"

text \<open>
  Everything the pages take from the libraries without fixing it themselves is a field of
  this record, so that the theorems hold for every behaviour of the libraries:
  \<^item> \<open>re_compile pat\<close> is \<^verbatim>\<open>re.compile(pat, re.IGNORECASE)\<close>, which
    \<^verbatim>\<open>Series.str.contains(pat, case=False)\<close> calls since \<^verbatim>\<open>regex=True\<close> is the default:
    \<open>None\<close> when the pattern is not a valid regular expression (\<^verbatim>\<open>re.error\<close> is raised),
    else the predicate \<^verbatim>\<open>pat.search(s) is not None\<close>;
  \<^item> \<open>row_str\<close>, \<open>col_str\<close>, \<open>arr_str\<close> and \<open>csv_str\<close> render a non-text scalar in
    \<^verbatim>\<open>row.astype(str)\<close>, in \<^verbatim>\<open>df[col].astype(str)\<close>, in numpy's \<^verbatim>\<open>unique_values.astype(str)\<close>
    and in \<^verbatim>\<open>to_csv\<close> (they differ: a row of numeric columns is upcast to floats before
    it is rendered);
  \<^item> \<open>csv_writerow\<close> is \<^verbatim>\<open>csv.writer.writerow\<close>: one record of fields as delimited text with
    its line terminator;
  \<^item> \<open>describe\<close> is \<^verbatim>\<open>DataFrame.describe()\<close>;
  \<^item> \<open>to_datetime_coerce\<close> is \<^verbatim>\<open>pd.to_datetime(column, errors='coerce')\<close>: given the
    column, from which pandas infers the format, either an exception (the values of some
    types, truth values for one, are refused whatever \<^verbatim>\<open>errors\<close> is) or the type of the
    resulting column and, for each cell, the nanoseconds read or \<open>None\<close> for a cell that
    cannot be read with that format.
\<close>

record ('n, 's) pandas =
  re_compile :: "string \<Rightarrow> (string \<Rightarrow> bool) option"
  row_str :: "'n cell \<Rightarrow> string"
  col_str :: "'n cell \<Rightarrow> string"
  arr_str :: "'n cell \<Rightarrow> string"
  csv_str :: "'n cell \<Rightarrow> string"
  csv_writerow :: "string list \<Rightarrow> string"
  describe :: "'n dataframe \<Rightarrow> 's"
  to_datetime_coerce :: "'n cell list \<Rightarrow> exn + string \<times> ('n cell \<Rightarrow> int option)"

section \<open>Search page: keyword mode\<close>

definition keyword_row :: "('n, 's) pandas \<Rightarrow> (string \<Rightarrow> bool) \<Rightarrow> 'n cell list \<Rightarrow> bool" where
  \<comment> \<open>\<^verbatim>\<open>row.astype(str).str.contains(search_term, case=False, na=False).any()\<close>: after
      \<^verbatim>\<open>astype(str)\<close> no element is missing, so \<^verbatim>\<open>na=False\<close> never applies\<close>
  "keyword_row lib found row = list_ex found (map (astype_str (row_str lib)) row)"

definition keyword_search :: "('n, 's) pandas \<Rightarrow> 'n dataframe \<Rightarrow> string \<Rightarrow> exn + 'n dataframe" where
  \<comment> \<open>lines 135 and 145 to 151: \<^verbatim>\<open>filtered_df = df.copy()\<close>, replaced by \<^verbatim>\<open>df[mask]\<close>
      when the keyword is not empty. \<^verbatim>\<open>main\<close> runs this on a table with at least one row
      and one column, so an invalid pattern always reaches \<^verbatim>\<open>re.compile\<close>.\<close>
  "keyword_search lib df search_term =
     (if search_term = [] then Inr df
      else case re_compile lib search_term of
             None \<Rightarrow> Inl re_error
           | Some found \<Rightarrow> Inr (getitem_mask df (map (keyword_row lib found) (rows df))))"

section \<open>Search page: filtering by column\<close>

fun index_of :: "'a list \<Rightarrow> 'a \<Rightarrow> nat" where
  "index_of [] x = 0"
| "index_of (y # ys) x = (if x = y then 0 else Suc (index_of ys x))"

definition column :: "'n dataframe \<Rightarrow> string \<Rightarrow> 'n cell list" where
  \<comment> \<open>\<^verbatim>\<open>df[col]\<close> for a label of \<^verbatim>\<open>df.columns\<close>\<close>
  "column df col = map (\<lambda>row. row ! index_of (columns df) col) (rows df)"

definition dropna :: "'n cell list \<Rightarrow> 'n cell list" where
  "dropna xs = filter (\<lambda>x. \<not> isna x) xs"

definition unique :: "'a list \<Rightarrow> 'a list" where
  \<comment> \<open>\<^verbatim>\<open>Series.unique()\<close>: the distinct values in order of first appearance\<close>
  "unique xs = rev (remdups (rev xs))"

datatype search_method = KeywordSearch | ColumnFilter

text \<open>
  What the user enters: the radio button, the keyword box, the multiselect of each
  column (by its widget key \<^verbatim>\<open>filter_<col>\<close>), the multiselect of the columns to display,
  and the clock read for the file name.
\<close>

record clock =
  year :: nat
  month :: nat
  day :: nat
  hour :: nat
  minute :: nat
  second :: nat

record ui =
  search_method :: search_method
  search_term :: string
  selected_values :: "string \<Rightarrow> string list"
  display_columns :: "string list"
  now :: clock

definition offered :: "'n dataframe \<Rightarrow> string \<Rightarrow> bool" where
  \<comment> \<open>line 159: the column gets a multiselect\<close>
  "offered df col =
     (let unique_values = unique (dropna (column df col))
      in length unique_values > 0 \<and> length unique_values \<le> 50)"

definition facet_options :: "('n, 's) pandas \<Rightarrow> 'n dataframe \<Rightarrow> string \<Rightarrow> string list" where
  \<comment> \<open>\<^verbatim>\<open>options=sorted(unique_values.astype(str))\<close>\<close>
  "facet_options lib df col =
     sort (map (astype_str (arr_str lib)) (unique (dropna (column df col))))"

definition facets :: "('n, 's) pandas \<Rightarrow> 'n dataframe \<Rightarrow> (string \<times> string list) list" where
  \<comment> \<open>the multiselects of the sidebar, in column order\<close>
  "facets lib df = map (\<lambda>col. (col, facet_options lib df col)) (filter (offered df) (columns df))"

definition facet_step ::
  "('n, 's) pandas \<Rightarrow> ui \<Rightarrow> 'n dataframe \<Rightarrow> 'n dataframe \<Rightarrow> string \<Rightarrow> 'n dataframe" where
  \<comment> \<open>one turn of the loop of lines 157 to 167: \<open>df\<close> is the loaded table,
      \<open>filtered_df\<close> the table narrowed so far\<close>
  "facet_step lib u df filtered_df col =
     (if offered df col then
        (if selected_values u col \<noteq> [] then
           getitem_mask filtered_df
             (map (\<lambda>x. astype_str (col_str lib) x \<in> set (selected_values u col))
                (column filtered_df col))
         else filtered_df)
      else filtered_df)"

definition column_filter :: "('n, 's) pandas \<Rightarrow> ui \<Rightarrow> 'n dataframe \<Rightarrow> 'n dataframe" where
  "column_filter lib u df = foldl (facet_step lib u df) df (columns df)"

definition search :: "('n, 's) pandas \<Rightarrow> ui \<Rightarrow> 'n dataframe \<Rightarrow> exn + 'n dataframe" where
  \<comment> \<open>lines 135 to 167: \<^verbatim>\<open>filtered_df\<close> after the branch on the search method\<close>
  "search lib u df =
     (case search_method u of
        KeywordSearch \<Rightarrow> keyword_search lib df (search_term u)
      | ColumnFilter \<Rightarrow> Inr (column_filter lib u df))"

section \<open>Search page: display, export and summaries\<close>

definition getitem_cols :: "'n dataframe \<Rightarrow> string list \<Rightarrow> exn + 'n dataframe" where
  \<comment> \<open>\<^verbatim>\<open>df[cols]\<close> for a list of labels; a label that is no column raises \<^verbatim>\<open>KeyError\<close>\<close>
  "getitem_cols df cols =
     (if set cols \<subseteq> set (columns df) then
        Inr \<lparr>columns = cols,
             dtypes = map (\<lambda>c. dtypes df ! index_of (columns df) c) cols,
             rows = map (\<lambda>row. map (\<lambda>c. row ! index_of (columns df) c) cols) (rows df)\<rparr>
      else Inl KeyError)"

fun csv_value :: "('n cell \<Rightarrow> string) \<Rightarrow> 'n cell \<Rightarrow> string" where
  \<comment> \<open>a cell as \<^verbatim>\<open>to_csv\<close> hands it to the writer: the default \<^verbatim>\<open>na_rep\<close> is the empty text\<close>
  "csv_value f NaN = []"
| "csv_value f NaT = []"
| "csv_value f (Str s) = s"
| "csv_value f c = f c"

definition to_csv :: "('n, 's) pandas \<Rightarrow> 'n dataframe \<Rightarrow> string" where
  \<comment> \<open>\<^verbatim>\<open>df.to_csv(index=False, encoding='utf-8-sig')\<close> without a path: the text of the
      header record followed by one record for each row\<close>
  "to_csv lib df =
     csv_writerow lib (columns df) @
     concat (map (\<lambda>row. csv_writerow lib (map (csv_value (csv_str lib)) row)) (rows df))"

text \<open>
  The text of the download goes to \<^verbatim>\<open>st.download_button\<close> as a \<^verbatim>\<open>str\<close>:
  \<^verbatim>\<open>to_csv\<close> without a path returns text and its \<^verbatim>\<open>encoding\<close> argument has no effect.
  The button writes \<^verbatim>\<open>data.encode()\<close>, the UTF-8 bytes of the text. A text is a sequence of
  Unicode scalar values (code points other than surrogates); \<open>utf8_encode\<close> gives its
  UTF-8 bytes, which are what stands for the text in this theory, and \<open>utf8_decode\<close>
  reads bytes as UTF-8 the strict way: no overlong form, no surrogate, nothing above
  \<open>0x10FFFF\<close>.
\<close>

definition scalar_value :: "nat \<Rightarrow> bool" where
  "scalar_value c \<longleftrightarrow> c < 0xD800 \<or> (0xDFFF < c \<and> c < 0x110000)"

definition utf8_char :: "nat \<Rightarrow> string" where
  "utf8_char c =
     (if c < 0x80 then [char_of c]
      else if c < 0x800 then [char_of (0xC0 + c div 0x40), char_of (0x80 + c mod 0x40)]
      else if c < 0x10000 then
        [char_of (0xE0 + c div 0x1000), char_of (0x80 + c div 0x40 mod 0x40),
         char_of (0x80 + c mod 0x40)]
      else
        [char_of (0xF0 + c div 0x40000), char_of (0x80 + c div 0x1000 mod 0x40),
         char_of (0x80 + c div 0x40 mod 0x40), char_of (0x80 + c mod 0x40)])"

definition utf8_encode :: "nat list \<Rightarrow> string" where
  "utf8_encode cs = concat (map utf8_char cs)"

text \<open>
  \<open>decode_from k v lo acc bs\<close> reads the bytes \<open>bs\<close> with \<open>k\<close> continuation bytes
  still due for a code point whose bits so far are \<open>v\<close> and which must reach \<open>lo\<close>;
  \<open>acc\<close> holds the code points read, last first.
\<close>

fun decode_from :: "nat \<Rightarrow> nat \<Rightarrow> nat \<Rightarrow> nat list \<Rightarrow> string \<Rightarrow> nat list option" where
  "decode_from k v lo acc [] = (if k = 0 then Some (rev acc) else None)"
| "decode_from k v lo acc (b # bs) =
     (if k = 0 then
        (if of_char b < (0x80::nat) then decode_from 0 0 0 (of_char b # acc) bs
         else if of_char b < (0xC0::nat) then None
         else if of_char b < (0xE0::nat) then decode_from 1 (of_char b - 0xC0) 0x80 acc bs
         else if of_char b < (0xF0::nat) then decode_from 2 (of_char b - 0xE0) 0x800 acc bs
         else if of_char b < (0xF8::nat) then decode_from 3 (of_char b - 0xF0) 0x10000 acc bs
         else None)
      else if (0x80::nat) \<le> of_char b \<and> of_char b < (0xC0::nat) then
        (if k = 1 then
           (if lo \<le> v * 0x40 + (of_char b - 0x80) \<and> scalar_value (v * 0x40 + (of_char b - 0x80))
            then decode_from 0 0 0 ((v * 0x40 + (of_char b - 0x80)) # acc) bs
            else None)
         else decode_from (k - 1) (v * 0x40 + (of_char b - 0x80)) lo acc bs)
      else None)"

definition utf8_decode :: "string \<Rightarrow> nat list option" where
  "utf8_decode bs = decode_from 0 0 0 [] bs"

declare decode_from.simps(2) [simp del]

function digits :: "nat \<Rightarrow> string" where
  \<comment> \<open>decimal notation\<close>
  "digits n = (if n < 10 then [''0123456789'' ! n] else digits (n div 10) @ [''0123456789'' ! (n mod 10)])"
  by pat_completeness auto
termination
  by (relation "measure id") auto

declare digits.simps [simp del]

definition pad2 :: "nat \<Rightarrow> string" where
  \<comment> \<open>a field of \<^verbatim>\<open>strftime\<close> padded with a zero to two digits\<close>
  "pad2 n = (if n < 10 then CHR ''0'' # digits n else digits n)"

definition strftime :: "clock \<Rightarrow> string" where
  \<comment> \<open>\<^verbatim>\<open>strftime('%Y%m%d_%H%M%S')\<close>; the year of a pandas timestamp has four digits\<close>
  "strftime t =
     digits (year t) @ pad2 (month t) @ pad2 (day t) @ ''_'' @
     pad2 (hour t) @ pad2 (minute t) @ pad2 (second t)"

definition file_name :: "clock \<Rightarrow> string" where
  "file_name t = ''player_data_'' @ strftime t @ ''.csv''"

definition count_series :: "'n cell list \<Rightarrow> nat" where
  \<comment> \<open>\<^verbatim>\<open>Series.count()\<close>: the cells that are not missing\<close>
  "count_series xs = length (dropna xs)"

definition nunique :: "'n cell list \<Rightarrow> nat" where
  \<comment> \<open>\<^verbatim>\<open>Series.nunique()\<close>: the distinct values that are not missing\<close>
  "nunique xs = length (unique (dropna xs))"

definition col_info :: "'n dataframe \<Rightarrow> (string \<times> string \<times> nat \<times> nat) list" where
  \<comment> \<open>lines 220 to 225: name, storage type, non-missing count and distinct count\<close>
  "col_info df =
     zip (columns df)
       (zip (dtypes df)
          (zip (map (\<lambda>col. count_series (column df col)) (columns df))
               (map (\<lambda>col. nunique (column df col)) (columns df))))"

text \<open>
  What one run of \<^verbatim>\<open>main\<close> puts on the page once the table is loaded: the multiselects
  of the sidebar, the filtered table behind the result count, the table displayed, the
  download (file name and data), the statistics, the two messages of lines 213 and 215,
  and the column list of the loaded table.
\<close>

record ('n, 's) page =
  sidebar :: "(string \<times> string list) list"
  filtered :: "'n dataframe"
  displayed :: "'n dataframe option"
  download :: "(string \<times> string) option"
  statistics :: "'s option"
  warning_no_column :: bool
  info_no_match :: bool
  dataset_info :: "(string \<times> string \<times> nat \<times> nat) list"

definition main :: "('n, 's) pandas \<Rightarrow> ui \<Rightarrow> 'n dataframe \<Rightarrow> exn + ('n, 's) page option" where
  \<comment> \<open>lines 119 to 226, from the loaded table on. \<open>Inr None\<close> is the return of line 121
      (nothing but a warning is shown), \<open>Inl\<close> an exception that leaves \<^verbatim>\<open>main\<close>.\<close>
  "main lib u df =
     (if df_empty df then Inr None
      else case search lib u df of
        Inl e \<Rightarrow> Inl e
      | Inr filtered_df \<Rightarrow>
          (let p = \<lparr>sidebar = (case search_method u of KeywordSearch \<Rightarrow> [] | ColumnFilter \<Rightarrow> facets lib df),
                    filtered = filtered_df, displayed = None, download = None,
                    statistics = None, warning_no_column = False, info_no_match = False,
                    dataset_info = col_info df\<rparr>
           in if \<not> df_empty filtered_df then
                (if display_columns u \<noteq> [] then
                   (case getitem_cols filtered_df (display_columns u) of
                      Inl e \<Rightarrow> Inl e
                    | Inr view \<Rightarrow>
                        Inr (Some (p\<lparr>displayed := Some view,
                                     download := Some (file_name (now u), to_csv lib view),
                                     statistics := Some (describe lib view)\<rparr>)))
                 else Inr (Some (p\<lparr>warning_no_column := True\<rparr>)))
              else Inr (Some (p\<lparr>info_no_match := True\<rparr>))))"

text \<open>
  A concrete matcher for evaluating examples: case-insensitive search of a literal. It is
  what \<^verbatim>\<open>re.compile(pat, re.IGNORECASE).search\<close> computes when pattern and text are
  ASCII and the pattern has none of the characters \<^verbatim>\<open>. ^ $ * + ? { } [ ] \ | ( )\<close>.
\<close>

definition lower_ascii :: "char \<Rightarrow> char" where
  "lower_ascii c =
     (case map_of (zip ''ABCDEFGHIJKLMNOPQRSTUVWXYZ'' ''abcdefghijklmnopqrstuvwxyz'') c of
        Some l \<Rightarrow> l
      | None \<Rightarrow> c)"

definition literal_ignorecase :: "string \<Rightarrow> (string \<Rightarrow> bool) option" where
  "literal_ignorecase pat = Some (\<lambda>s. sublist (map lower_ascii pat) (map lower_ascii s))"

text \<open>
  The library on tables of text cells, the only ones the examples use. Its \<open>describe\<close>
  gives two of the rows \<^verbatim>\<open>describe()\<close> prints for text columns, \<^verbatim>\<open>count\<close> and
  \<^verbatim>\<open>unique\<close>; its records are separated by commas and ended by a line feed, which is
  what the writer produces for fields free of commas, quotes and line breaks.
\<close>

definition describe_text :: "'n dataframe \<Rightarrow> (string \<times> nat \<times> nat) list" where
  "describe_text df =
     map (\<lambda>col. (col, count_series (column df col), nunique (column df col))) (columns df)"

fun join_comma :: "string list \<Rightarrow> string" where
  "join_comma [] = []"
| "join_comma [x] = x"
| "join_comma (x # xs) = x @ '','' @ join_comma xs"

definition text_lib :: "(nat, (string \<times> nat \<times> nat) list) pandas" where
  "text_lib = \<lparr>re_compile = literal_ignorecase,
     row_str = (\<lambda>_. []), col_str = (\<lambda>_. []), arr_str = (\<lambda>_. []), csv_str = (\<lambda>_. []),
     csv_writerow = (\<lambda>fields. join_comma fields @ [CHR 0x0A]),
     describe = describe_text, to_datetime_coerce = (\<lambda>col. Inr (''datetime64[ns]'', \<lambda>c. None))\<rparr>"

section \<open>Loading a sheet\<close>

text \<open>
  What the loaders take from Streamlit, google-auth and gspread: whether \<^verbatim>\<open>st\<close> has
  secrets, the test \<^verbatim>\<open>"gcp_service_account" in st.secrets\<close>, the credentials built from the
  secrets (line 36 and 37) or from the file \<^verbatim>\<open>service_account.json\<close>, the authorisation
  of a client, and the three calls that fetch a worksheet as a table. Each call either
  raises (\<open>Inl\<close>) or returns. The memoisation of \<^verbatim>\<open>st.cache_resource\<close> and
  \<^verbatim>\<open>st.cache_data\<close> replays a value computed this way and is left out.
\<close>

text \<open>
  The table fetched from a worksheet takes its labels from the header row, and a header
  cell holding a number becomes a label that is no text. So a fetched table has labels
  of either kind; the tables the pages work on have text labels only, since the loaders
  return no other. The parser behind \<^verbatim>\<open>get_as_dataframe\<close> renames a label that occurs
  twice, so the labels of a fetched table are distinct.
\<close>

datatype 'n label = Name string | Scalar 'n

record 'n sheet_frame =
  labels :: "'n label list"
  label_dtypes :: "string list"
  records :: "'n cell list list"

definition sheet_empty :: "'n sheet_frame \<Rightarrow> bool" where
  \<comment> \<open>\<^verbatim>\<open>df.empty\<close> on a fetched table\<close>
  "sheet_empty df \<longleftrightarrow> labels df = [] \<or> records df = []"

datatype credentials = FromInfo | FromFile

datatype client = Client credentials

record 'n services =
  has_secrets :: bool
  secrets_has_account :: "exn + bool"
  service_account_info :: "exn + credentials"
  service_account_file :: "exn + credentials"
  authorize :: "credentials \<Rightarrow> exn + client"
  fetch :: "client \<Rightarrow> string \<Rightarrow> string \<Rightarrow> exn + 'n sheet_frame"

datatype notice = CredentialsFileError exn | ConnectError exn | NoConnection | LoadError exn

definition use_streamlit_secrets :: "'n services \<Rightarrow> exn + bool" where
  \<comment> \<open>lines 26 to 33 (76 to 81 of \<^verbatim>\<open>card_tracker.py\<close>): only \<^verbatim>\<open>StreamlitAPIException\<close>
      is caught\<close>
  "use_streamlit_secrets sv =
     (if has_secrets sv then
        (case secrets_has_account sv of
           Inl e \<Rightarrow> (if e = StreamlitAPIException then Inr False else Inl e)
         | Inr found \<Rightarrow> Inr found)
      else Inr False)"

definition connect :: "'n services \<Rightarrow> credentials \<Rightarrow> exn + client option \<times> notice list" where
  \<comment> \<open>lines 45 to 50: \<^verbatim>\<open>gspread.authorize\<close> under \<^verbatim>\<open>except Exception\<close>\<close>
  "connect sv creds =
     (case authorize sv creds of
        Inl e \<Rightarrow> Inr (None, [ConnectError e])
      | Inr c \<Rightarrow> Inr (Some c, []))"

definition get_gspread_client :: "'n services \<Rightarrow> exn + client option \<times> notice list" where
  \<comment> \<open>the search page, lines 23 to 50: the client or \<^verbatim>\<open>None\<close>, with the messages of
      \<^verbatim>\<open>st.error\<close>. The credentials of the secrets are built outside every \<^verbatim>\<open>try\<close>.\<close>
  "get_gspread_client sv =
     (case use_streamlit_secrets sv of
        Inl e \<Rightarrow> Inl e
      | Inr use \<Rightarrow>
          if use then
            (case service_account_info sv of
               Inl e \<Rightarrow> Inl e
             | Inr creds \<Rightarrow> connect sv creds)
          else
            (case service_account_file sv of
               Inl e \<Rightarrow> Inr (None, [CredentialsFileError e])
             | Inr creds \<Rightarrow> connect sv creds))"

definition dropna_all :: "'n sheet_frame \<Rightarrow> 'n sheet_frame" where
  \<comment> \<open>\<^verbatim>\<open>df.dropna(how='all')\<close>\<close>
  "dropna_all df = df\<lparr>records := filter (\<lambda>row. \<not> list_all isna row) (records df)\<rparr>"

definition keep_labels :: "(string \<Rightarrow> bool) \<Rightarrow> string list \<Rightarrow> 'a list \<Rightarrow> 'a list" where
  \<comment> \<open>the entries at the positions of the labels that satisfy the test\<close>
  "keep_labels P cs xs = map snd (filter (\<lambda>(c, x). P c) (zip cs xs))"

fun names :: "'n label list \<Rightarrow> string list option" where
  \<comment> \<open>the labels as texts, when all of them are texts\<close>
  "names [] = Some []"
| "names (Name s # ls) = map_option (Cons s) (names ls)"
| "names (Scalar x # ls) = None"

fun is_name :: "'n label \<Rightarrow> bool" where
  "is_name (Name s) = True"
| "is_name (Scalar x) = False"

definition drop_unnamed :: "'n sheet_frame \<Rightarrow> exn + 'n dataframe" where
  \<comment> \<open>\<^verbatim>\<open>df.loc[:, ~df.columns.str.contains('^Unnamed')]\<close>: the pattern matches the labels
      that start with \<^verbatim>\<open>Unnamed\<close>. With a label that is no text among texts,
      \<^verbatim>\<open>str.contains\<close> gives a missing value for it and \<^verbatim>\<open>~\<close> raises \<^verbatim>\<open>TypeError\<close>;
      with labels none of which is a text there is no \<^verbatim>\<open>.str\<close> accessor and
      \<^verbatim>\<open>AttributeError\<close> is raised. (A header without any cell is an index of texts.)\<close>
  "drop_unnamed df =
     (case names (labels df) of
        Some cs \<Rightarrow>
          Inr \<lparr>columns = filter (\<lambda>c. \<not> prefix ''Unnamed'' c) cs,
               dtypes = keep_labels (\<lambda>c. \<not> prefix ''Unnamed'' c) cs (label_dtypes df),
               rows = map (keep_labels (\<lambda>c. \<not> prefix ''Unnamed'' c) cs) (records df)\<rparr>
      | None \<Rightarrow> Inl (if list_ex is_name (labels df) then TypeError else AttributeError))"

definition load_player_data ::
  "'n services \<Rightarrow> string \<Rightarrow> string \<Rightarrow> exn + 'n dataframe \<times> notice list" where
  \<comment> \<open>lines 53 to 77: the table returned and the messages shown, or the exception that
      leaves the function. Every exception of lines 64 to 72 ends in the \<^verbatim>\<open>except\<close> of
      line 75.\<close>
  "load_player_data sv spreadsheet_id worksheet_name =
     (if spreadsheet_id = [] then Inr (DataFrame, [])
      else case get_gspread_client sv of
        Inl e \<Rightarrow> Inl e
      | Inr (None, ns) \<Rightarrow> Inr (DataFrame, ns @ [NoConnection])
      | Inr (Some c, ns) \<Rightarrow>
          (case fetch sv c spreadsheet_id worksheet_name of
             Inl e \<Rightarrow> Inr (DataFrame, ns @ [LoadError e])
           | Inr df \<Rightarrow>
               (case drop_unnamed (dropna_all df) of
                  Inl e \<Rightarrow> Inr (DataFrame, ns @ [LoadError e])
                | Inr normalized \<Rightarrow> Inr (normalized, ns))))"

section \<open>Front page: loading and quick statistics\<close>

definition WORKSHEET_NAME :: string where
  "WORKSHEET_NAME =
     [CHR 0xE3, CHR 0x82, CHR 0xB7, CHR 0xE3, CHR 0x83, CHR 0xBC, CHR 0xE3, CHR 0x83, CHR 0x88,
      CHR 0x31]"

definition COLUMNS :: "string list" where
  "COLUMNS = [''season'', ''date'', ''environment'', ''my_deck'', ''my_deck_type'',
     ''opponent_deck'', ''opponent_deck_type'', ''first_second'', ''result'', ''finish_turn'',
     ''memo'']"

definition get_gspread_client_summary :: "'n services \<Rightarrow> exn + client option \<times> notice list" where
  \<comment> \<open>\<^verbatim>\<open>card_tracker.py\<close>, lines 72 to 96: without secrets there is no client\<close>
  "get_gspread_client_summary sv =
     (case use_streamlit_secrets sv of
        Inl e \<Rightarrow> Inl e
      | Inr use \<Rightarrow>
          if use then
            (case service_account_info sv of
               Inl e \<Rightarrow> Inl e
             | Inr creds \<Rightarrow> connect sv creds)
          else Inr (None, []))"

definition needed_cols :: "'n sheet_frame \<Rightarrow> string list" where
  \<comment> \<open>line 116: \<^verbatim>\<open>[col for col in COLUMNS if col in df.columns]\<close>\<close>
  "needed_cols df = filter (\<lambda>col. Name col \<in> set (labels df)) COLUMNS"

definition getitem_names :: "'n sheet_frame \<Rightarrow> string list \<Rightarrow> exn + 'n dataframe" where
  \<comment> \<open>\<^verbatim>\<open>df[cols]\<close> on a fetched table, whose labels are distinct, for a list of texts; a
      text that is no label raises \<^verbatim>\<open>KeyError\<close>\<close>
  "getitem_names df cols =
     (if Name ` set cols \<subseteq> set (labels df) then
        Inr \<lparr>columns = cols,
             dtypes = map (\<lambda>c. label_dtypes df ! index_of (labels df) (Name c)) cols,
             rows = map (\<lambda>row. map (\<lambda>c. row ! index_of (labels df) (Name c)) cols) (records df)\<rparr>
      else Inl KeyError)"

definition to_datetime :: "('n, 's) pandas \<Rightarrow> 'n dataframe \<Rightarrow> string \<Rightarrow> exn + 'n dataframe" where
  \<comment> \<open>\<^verbatim>\<open>df[col] = pd.to_datetime(df[col], errors='coerce')\<close> for a label of the table: a
      cell pandas cannot read becomes \<open>NaT\<close>\<close>
  "to_datetime lib df col =
     (case to_datetime_coerce lib (column df col) of
        Inl e \<Rightarrow> Inl e
      | Inr (dtype, parse) \<Rightarrow>
          Inr (df\<lparr>dtypes := (dtypes df)[index_of (columns df) col := dtype],
                  rows := map (\<lambda>row. row[index_of (columns df) col :=
                                 (case parse (row ! index_of (columns df) col) of
                                    Some t \<Rightarrow> Timestamp t
                                  | None \<Rightarrow> NaT)])
                            (rows df)\<rparr>))"

definition load_summary_data ::
  "('n, 's) pandas \<Rightarrow> 'n services \<Rightarrow> string option \<Rightarrow> exn + 'n dataframe \<times> notice list" where
  \<comment> \<open>lines 98 to 125; the third argument is the global \<^verbatim>\<open>SPREADSHEET_ID\<close>, \<^verbatim>\<open>None\<close>
      when the secrets do not give it. The bare \<^verbatim>\<open>except\<close> of line 124 catches every
      exception of lines 108 to 123 and shows nothing.\<close>
  "load_summary_data lib sv SPREADSHEET_ID =
     (case SPREADSHEET_ID of
        None \<Rightarrow> Inr (DataFrame, [])
      | Some key \<Rightarrow>
          (if key = [] then Inr (DataFrame, [])
           else (case get_gspread_client_summary sv of
              Inl e \<Rightarrow> Inl e
            | Inr (None, ns) \<Rightarrow> Inr (DataFrame, ns)
            | Inr (Some c, ns) \<Rightarrow>
                (case fetch sv c key WORKSHEET_NAME of
                   Inl e \<Rightarrow> Inr (DataFrame, ns)
                 | Inr df \<Rightarrow>
                     (if sheet_empty df then Inr (DataFrame, ns)
                      else (case getitem_names df (needed_cols df) of
                         Inl e \<Rightarrow> Inr (DataFrame, ns)
                       | Inr needed \<Rightarrow>
                           (if ''date'' \<in> set (columns needed) then
                              (case to_datetime lib needed ''date'' of
                                 Inl e \<Rightarrow> Inr (DataFrame, ns)
                               | Inr dated \<Rightarrow> Inr (dated, ns))
                            else Inr (needed, ns))))))))"

text \<open>
  Python floats are IEEE doubles. A double is a rational and every operation rounds the
  exact result to the nearest double, ties to the even significand; \<open>float_round\<close> does
  that for results in the normal range, which covers quotients and percentages of row
  counts. \<open>exponent x\<close> is the \<open>e\<close> with \<open>2 powi e \<le> x < 2 powi (e + 1)\<close>.
\<close>

definition round_half_even :: "rat \<Rightarrow> int" where
  "round_half_even x =
     (let f = \<lfloor>x\<rfloor>; d = x - of_int f
      in if d < 1 / 2 then f else if 1 / 2 < d then f + 1 else if even f then f else f + 1)"

definition exponent :: "rat \<Rightarrow> int" where
  "exponent x =
     (let (a, b) = quotient_of x; e = bitlen a - bitlen b
      in if 2 powi e \<le> x then e else e - 1)"

definition float_round :: "rat \<Rightarrow> rat" where
  "float_round x =
     (if x = 0 then 0
      else let ulp = 2 powi (exponent \<bar>x\<bar> - 52)
           in of_int (round_half_even (x / ulp)) * ulp)"

definition truediv :: "nat \<Rightarrow> nat \<Rightarrow> exn + rat" where
  \<comment> \<open>Python's \<^verbatim>\<open>a / b\<close> on two counts: the double nearest to the quotient, and
      \<^verbatim>\<open>ZeroDivisionError\<close> for the divisor 0\<close>
  "truediv a b =
     (if b = 0 then Inl ZeroDivisionError else Inr (float_round (of_nat a / of_nat b)))"

definition win_rate_value :: "nat \<Rightarrow> nat \<Rightarrow> exn + rat" where
  \<comment> \<open>line 147: \<^verbatim>\<open>(wins / len(df) * 100) if len(df) > 0 else 0\<close>\<close>
  "win_rate_value wins n =
     (if n > 0 then
        (case truediv wins n of
           Inl e \<Rightarrow> Inl e
         | Inr q \<Rightarrow> Inr (float_round (q * 100)))
      else Inr 0)"

definition format_1f :: "rat \<Rightarrow> string" where
  \<comment> \<open>\<^verbatim>\<open>f"{x:.1f}"\<close> for \<open>x \<ge> 0\<close>: the nearest multiple of a tenth, ties to even\<close>
  "format_1f x =
     (let t = nat (round_half_even (x * 10)) in digits (t div 10) @ ''.'' @ digits (t mod 10))"

definition win_token :: string where
  "win_token = [CHR 0xE5, CHR 0x8B, CHR 0x9D, CHR 0xE3, CHR 0x81, CHR 0xA1]"

definition wins :: "'n dataframe \<Rightarrow> nat" where
  \<comment> \<open>\<^verbatim>\<open>len(df[df['result'] == win_token])\<close>\<close>
  "wins df =
     length (rows (getitem_mask df (map (\<lambda>x. x = Str win_token) (column df ''result''))))"

datatype metric = Count nat | Text string

record summary =
  total_games :: metric
  win_count :: metric
  win_rate :: metric
  season_count :: metric

definition quick_stats :: "'n dataframe \<Rightarrow> exn + summary option" where
  \<comment> \<open>lines 131 to 159, the body of the \<^verbatim>\<open>try\<close> of line 128 after the load: the four
      metrics, \<open>Inr None\<close> for the message of line 159 that replaces them when the table
      is empty, \<open>Inl\<close> for an exception raised on the way\<close>
  "quick_stats df =
     (if \<not> df_empty df then
        (case (if ''result'' \<in> set (columns df)
               then (case win_rate_value (wins df) (length (rows df)) of
                       Inl e \<Rightarrow> Inl e
                     | Inr rate \<Rightarrow> Inr (Text (format_1f rate @ ''%'')))
               else Inr (Text ''N/A'')) of
           Inl e \<Rightarrow> Inl e
         | Inr shown_rate \<Rightarrow>
             Inr (Some \<lparr>total_games = Count (length (rows df)),
                        win_count =
                          (if ''result'' \<in> set (columns df) then Count (wins df)
                           else Text ''N/A''),
                        win_rate = shown_rate,
                        season_count =
                          (if ''season'' \<in> set (columns df)
                           then Count (length (unique (dropna (column df ''season''))))
                           else Text ''N/A'')\<rparr>))
      else Inr None)"

section \<open>Example tables\<close>

definition roster :: "nat dataframe" where
  \<comment> \<open>a row with no cell filled in, a player without team, a player with team\<close>
  "roster = \<lparr>columns = [''name'', ''team''], dtypes = [''object'', ''object''],
     rows = [[NaN, NaN], [Str ''Sato'', NaN], [Str ''Abe'', Str ''Red'']]\<rparr>"

definition decks :: "nat dataframe" where
  "decks = \<lparr>columns = [''deck''], dtypes = [''object''],
     rows = [[Str ''Red''], [Str ''Blue''], [Str ''Red'']]\<rparr>"

definition noon :: clock where
  "noon = \<lparr>year = 2025, month = 1, day = 2, hour = 12, minute = 0, second = 9\<rparr>"

definition pick_red :: ui where
  \<comment> \<open>filtering by column with \<^verbatim>\<open>Red\<close> selected for \<^verbatim>\<open>deck\<close>\<close>
  "pick_red = \<lparr>search_method = ColumnFilter, search_term = [],
     selected_values = (\<lambda>col. if col = ''deck'' then [''Red''] else []),
     display_columns = [''deck''], now = noon\<rparr>"

definition untouched :: ui where
  \<comment> \<open>filtering by column with nothing selected\<close>
  "untouched = \<lparr>search_method = ColumnFilter, search_term = [],
     selected_values = (\<lambda>col. []), display_columns = [''deck''], now = noon\<rparr>"

definition no_match :: ui where
  \<comment> \<open>a keyword no cell contains, with the column still selected for display\<close>
  "no_match = \<lparr>search_method = KeywordSearch, search_term = ''zzz'',
     selected_values = (\<lambda>col. []), display_columns = [''deck''], now = noon\<rparr>"

definition serials :: "nat dataframe" where
  \<comment> \<open>one column with 51 distinct numbers\<close>
  "serials = \<lparr>columns = [''id''], dtypes = [''int64''], rows = map (\<lambda>i. [Num i]) [0..<51]\<rparr>"

definition lose_token :: string where
  "lose_token = [CHR 0xE8, CHR 0xB2, CHR 0xA0, CHR 0xE3, CHR 0x81, CHR 0x91]"

definition no_games :: "nat dataframe" where
  \<comment> \<open>the header of a result column and no row\<close>
  "no_games = \<lparr>columns = [''result''], dtypes = [''object''], rows = []\<rparr>"

definition three_games :: "nat dataframe" where
  \<comment> \<open>a win, a loss, a win\<close>
  "three_games = \<lparr>columns = [''result''], dtypes = [''object''],
     rows = [[Str win_token], [Str lose_token], [Str win_token]]\<rparr>"

definition online :: "'n sheet_frame \<Rightarrow> 'n services" where
  \<comment> \<open>valid secrets, a service that accepts them and a worksheet holding the table\<close>
  "online sheet = \<lparr>has_secrets = True, secrets_has_account = Inr True,
     service_account_info = Inr FromInfo, service_account_file = Inl OtherException,
     authorize = (\<lambda>creds. Inr (Client creds)), fetch = (\<lambda>c key name. Inr sheet)\<rparr>"

definition malformed_secret :: "'n sheet_frame \<Rightarrow> 'n services" where
  \<comment> \<open>as before, but the entry \<^verbatim>\<open>gcp_service_account\<close> of the secrets is not valid
      service account info: \<^verbatim>\<open>Credentials.from_service_account_info\<close> raises \<^verbatim>\<open>ValueError\<close>\<close>
  "malformed_secret sheet = (online sheet)\<lparr>service_account_info := Inl ValueError\<rparr>"

definition dated_sheet :: "nat sheet_frame" where
  \<comment> \<open>a column without header and a row without content\<close>
  "dated_sheet = \<lparr>labels = [Name ''date'', Name ''Unnamed: 1'', Name ''result''],
     label_dtypes = [''object'', ''float64'', ''object''],
     records = [[Str ''2024-01-05'', NaN, Str win_token], [NaN, NaN, NaN],
                [Str ''soon'', NaN, Str lose_token]]\<rparr>"

definition yearly_sheet :: "nat sheet_frame" where
  \<comment> \<open>the second header cell holds the number 2024\<close>
  "yearly_sheet = \<lparr>labels = [Name ''name'', Scalar 2024],
     label_dtypes = [''object'', ''int64''],
     records = [[Str ''Abe'', Num 3]]\<rparr>"

definition calendar_lib :: "(nat, (string \<times> nat \<times> nat) list) pandas" where
  \<comment> \<open>the example library with a \<^verbatim>\<open>to_datetime\<close> that reads the one date of the examples\<close>
  "calendar_lib = text_lib\<lparr>to_datetime_coerce :=
     (\<lambda>col. Inr (''datetime64[ns]'',
        \<lambda>c. if c = Str ''2024-01-05'' then Some 1704412800000000000 else None))\<rparr>"

definition strict_lib :: "(nat, (string \<times> nat \<times> nat) list) pandas" where
  \<comment> \<open>the example library with a \<^verbatim>\<open>to_datetime\<close> that refuses every column\<close>
  "strict_lib = text_lib\<lparr>to_datetime_coerce := (\<lambda>col. Inl TypeError)\<rparr>"

definition kana_decks :: "nat dataframe" where
  \<comment> \<open>one deck whose name is written in Japanese\<close>
  "kana_decks = \<lparr>columns = [''deck''], dtypes = [''object''], rows = [[Str win_token]]\<rparr>"

section \<open>Properties of the search page\<close>

lemma getitem_mask_filter:
  assumes "xs = map f (rows df)"
  shows "getitem_mask df (map P xs) = df\<lparr>rows := filter (\<lambda>row. P (f row)) (rows df)\<rparr>"
proof -
  have "map fst (filter snd (zip ys (map P (map f ys)))) = filter (\<lambda>row. P (f row)) ys" for ys
    by (induction ys) simp_all
  then show ?thesis using assms by (simp add: getitem_mask_def)
qed

lemma keyword_search_rows:
  assumes "kw \<noteq> []" and "re_compile lib kw = Some found"
  shows "keyword_search lib df kw =
         Inr (df\<lparr>rows := filter (keyword_row lib found) (rows df)\<rparr>)"
  using assms getitem_mask_filter[of "rows df" "\<lambda>row. row" df "keyword_row lib found"]
  by (simp add: keyword_search_def)

lemma facet_step_rows:
  assumes "columns acc = columns df"
  shows "facet_step lib u df acc col =
         acc\<lparr>rows := filter (\<lambda>row. offered df col \<and> selected_values u col \<noteq> [] \<longrightarrow>
           astype_str (col_str lib) (row ! index_of (columns df) col) \<in> set (selected_values u col))
           (rows acc)\<rparr>"
proof (cases "offered df col \<and> selected_values u col \<noteq> []")
  case True
  have "getitem_mask acc
          (map (\<lambda>x. astype_str (col_str lib) x \<in> set (selected_values u col)) (column acc col))
      = acc\<lparr>rows := filter (\<lambda>row. astype_str (col_str lib) (row ! index_of (columns df) col)
                                 \<in> set (selected_values u col)) (rows acc)\<rparr>"
    by (rule getitem_mask_filter) (simp add: column_def assms)
  with True show ?thesis
    by (simp add: facet_step_def)
next
  case False
  then show ?thesis
    by (auto simp add: facet_step_def)
qed

lemma foldl_facet_step:
  assumes "columns acc = columns df"
  shows "foldl (facet_step lib u df) acc cs =
         acc\<lparr>rows := filter (\<lambda>row. \<forall>col\<in>set cs. offered df col \<and> selected_values u col \<noteq> [] \<longrightarrow>
           astype_str (col_str lib) (row ! index_of (columns df) col) \<in> set (selected_values u col))
           (rows acc)\<rparr>"
  using assms
proof (induction cs arbitrary: acc)
  case Nil
  then show ?case by simp
next
  case (Cons c cs)
  let ?acc = "facet_step lib u df acc c"
  have "columns ?acc = columns df"
    using Cons.prems by (simp add: facet_step_rows)
  from Cons.IH[OF this] show ?case
    by (simp add: facet_step_rows[OF Cons.prems] conj_commute cong: conj_cong)
qed

lemma search_is_filter:
  assumes "search lib u df = Inr df'"
  shows "\<exists>P. df' = df\<lparr>rows := filter P (rows df)\<rparr>"
proof (cases "search_method u")
  case KeywordSearch
  show ?thesis
  proof (cases "search_term u = []")
    case True
    with KeywordSearch assms have "df' = df\<lparr>rows := filter (\<lambda>_. True) (rows df)\<rparr>"
      by (simp add: search_def keyword_search_def)
    then show ?thesis by blast
  next
    case False
    with KeywordSearch assms obtain found where "re_compile lib (search_term u) = Some found"
      by (auto simp add: search_def keyword_search_def split: option.splits)
    with False KeywordSearch assms
    have "df' = df\<lparr>rows := filter (keyword_row lib found) (rows df)\<rparr>"
      by (simp add: search_def keyword_search_rows)
    then show ?thesis by blast
  qed
next
  case ColumnFilter
  with assms have "df' = foldl (facet_step lib u df) df (columns df)"
    by (simp add: search_def column_filter_def)
  then show ?thesis
    using foldl_facet_step[of df df lib u "columns df"] by auto
qed

text \<open>
  C1. The claim: in keyword mode a row is returned exactly when the text of one of its
  cells contains the keyword, and missing values never match, so a row whose cells are
  all missing is not returned. On the roster the keyword \<^verbatim>\<open>nan\<close> returns the row whose
  cells are all missing and the row of Sato, whose only text does not contain it:
  \<^verbatim>\<open>row.astype(str)\<close> has turned each missing cell into the text \<^verbatim>\<open>nan\<close> before
  \<^verbatim>\<open>str.contains\<close> and its \<^verbatim>\<open>na=False\<close> see it.
\<close>

theorem keyword_search_returns_missing_row:
  "keyword_search text_lib roster ''nan'' =
     Inr (roster\<lparr>rows := [[NaN, NaN], [Str ''Sato'', NaN]]\<rparr>)"
  by (simp add: keyword_search_def text_lib_def literal_ignorecase_def getitem_mask_def
      keyword_row_def lower_ascii_def roster_def sublist_code(3))

lemma keyword_search_ignores_case:
  "keyword_search text_lib \<lparr>columns = [''name''], dtypes = [''object''],
      rows = [[Str ''xAbcx''], [Str ''xyz'']]\<rparr> ''ABC'' =
     Inr \<lparr>columns = [''name''], dtypes = [''object''], rows = [[Str ''xAbcx'']]\<rparr>"
  "keyword_search text_lib \<lparr>columns = [''name''], dtypes = [''object''],
      rows = [[Str ''xAbcx''], [Str ''xyz'']]\<rparr> ''abc'' =
     Inr \<lparr>columns = [''name''], dtypes = [''object''], rows = [[Str ''xAbcx'']]\<rparr>"
  by code_simp+

text \<open>
  C4. Identity laws: with the empty keyword, and with no value selected in any
  multiselect that is offered, the filtered table is the loaded table.
\<close>

theorem search_identity:
  assumes "search_method u = KeywordSearch \<and> search_term u = [] \<or>
           search_method u = ColumnFilter \<and>
           (\<forall>col\<in>set (columns df). offered df col \<longrightarrow> selected_values u col = [])"
  shows "search lib u df = Inr df"
  using assms
proof (elim disjE conjE)
  assume "search_method u = KeywordSearch" "search_term u = []"
  then show ?thesis by (simp add: search_def keyword_search_def)
next
  assume m: "search_method u = ColumnFilter"
    and none: "\<forall>col\<in>set (columns df). offered df col \<longrightarrow> selected_values u col = []"
  have "filter (\<lambda>row. \<forall>col\<in>set (columns df). offered df col \<and> selected_values u col \<noteq> [] \<longrightarrow>
           astype_str (col_str lib) (row ! index_of (columns df) col) \<in> set (selected_values u col))
         (rows df) = rows df"
    using none by (intro filter_True) blast
  with m show ?thesis
    by (simp add: search_def column_filter_def foldl_facet_step)
qed

theorem search_identity_witness:
  "search text_lib (untouched\<lparr>search_method := KeywordSearch\<rparr>) decks = Inr decks \<and>
   search text_lib untouched decks = Inr decks"
proof
  show "search text_lib (untouched\<lparr>search_method := KeywordSearch\<rparr>) decks = Inr decks"
    using search_identity[of "untouched\<lparr>search_method := KeywordSearch\<rparr>" decks text_lib]
    by (simp add: untouched_def)
  show "search text_lib untouched decks = Inr decks"
    using search_identity[of untouched decks text_lib]
    by (simp add: untouched_def)
qed

text \<open>
  C6. Filtering by column keeps exactly the rows that, for every offered column with at
  least one selected value, have the text of their cell in that column among the selected
  values; the columns stay as they are. Selecting \<^verbatim>\<open>Red\<close> for \<^verbatim>\<open>deck\<close> over the rows
  \<^verbatim>\<open>Red\<close>, \<^verbatim>\<open>Blue\<close>, \<^verbatim>\<open>Red\<close> returns the two \<^verbatim>\<open>Red\<close> rows.
\<close>

theorem column_filter_rows:
  "column_filter lib u df =
   df\<lparr>rows := filter (\<lambda>row. \<forall>col\<in>set (columns df).
          offered df col \<and> selected_values u col \<noteq> [] \<longrightarrow>
          astype_str (col_str lib) (row ! index_of (columns df) col) \<in> set (selected_values u col))
        (rows df)\<rparr>"
  by (simp add: column_filter_def foldl_facet_step)

theorem column_filter_rows_witness:
  "column_filter text_lib pick_red decks = decks\<lparr>rows := [[Str ''Red''], [Str ''Red'']]\<rparr>"
  using column_filter_rows[of text_lib pick_red decks]
  by (simp add: decks_def pick_red_def offered_def column_def dropna_def unique_def)

lemma search_returns:
  assumes "search_method u = ColumnFilter \<or> search_term u = [] \<or>
           re_compile lib (search_term u) \<noteq> None"
  shows "\<exists>df'. search lib u df = Inr df'"
proof (cases "search_method u")
  case KeywordSearch
  with assms show ?thesis
    by (auto simp add: search_def keyword_search_def)
next
  case ColumnFilter
  then show ?thesis
    by (simp add: search_def)
qed

lemma search_raises:
  "search lib u df = Inl e \<longleftrightarrow>
     search_method u = KeywordSearch \<and> search_term u \<noteq> [] \<and>
     re_compile lib (search_term u) = None \<and> e = re_error"
  by (cases "search_method u")
     (auto simp add: search_def keyword_search_def split: option.splits)

text \<open>
  C10. Whatever the search method, for every keyword that compiles as a pattern (the
  empty one is never compiled) and every selection of values there is a filtered table;
  it has the columns of the loaded table and its rows are a subsequence of the loaded
  rows: rows of the input, in their order, none more often than in the input. The model
  is purely functional, as the code is on this path (\<^verbatim>\<open>df.copy()\<close>, \<^verbatim>\<open>df[mask]\<close> build
  new tables), so the loaded table is the same before and after. A keyword that does not
  compile raises \<^verbatim>\<open>re.error\<close> and there is no filtered table.
\<close>

theorem search_subseq:
  assumes "search_method u = ColumnFilter \<or> search_term u = [] \<or>
           re_compile lib (search_term u) \<noteq> None"
  shows "\<exists>df'. search lib u df = Inr df' \<and>
           subseq (rows df') (rows df) \<and> mset (rows df') \<subseteq># mset (rows df) \<and>
           set (rows df') \<subseteq> set (rows df) \<and>
           columns df' = columns df \<and> dtypes df' = dtypes df"
proof -
  from search_returns[OF assms] obtain df' where r: "search lib u df = Inr df'" ..
  from search_is_filter[OF r] obtain P where "df' = df\<lparr>rows := filter P (rows df)\<rparr>" ..
  with r show ?thesis by auto
qed

theorem search_subseq_witness:
  "search_method pick_red = ColumnFilter \<and>
   search text_lib pick_red decks = Inr (decks\<lparr>rows := [[Str ''Red''], [Str ''Red'']]\<rparr>) \<and>
   subseq [[Str ''Red''], [Str ''Red'']] (rows decks)"
proof -
  have m: "search_method pick_red = ColumnFilter"
    by (simp add: pick_red_def)
  have s: "search text_lib pick_red decks = Inr (decks\<lparr>rows := [[Str ''Red''], [Str ''Red'']]\<rparr>)"
    by (simp add: search_def pick_red_def column_filter_def decks_def facet_step_def
        offered_def column_def dropna_def unique_def getitem_mask_def)
  from search_subseq[of pick_red text_lib decks] m obtain df'
    where "search text_lib pick_red decks = Inr df'" and "subseq (rows df') (rows decks)"
    by blast
  with s m show ?thesis by simp
qed

lemma length_unique: "length (unique xs) = card (set xs)"
  by (simp add: unique_def length_remdups_card_conv)

lemma set_dropna: "set (dropna xs) = {v \<in> set xs. \<not> isna v}"
  by (auto simp add: dropna_def)

lemma offered_card:
  "offered df col \<longleftrightarrow>
   1 \<le> card {v \<in> set (column df col). \<not> isna v} \<and>
   card {v \<in> set (column df col). \<not> isna v} \<le> 50"
proof -
  have l: "length (unique (dropna (column df col))) = card {v \<in> set (column df col). \<not> isna v}"
    by (simp add: length_unique set_dropna)
  show ?thesis
    unfolding offered_def Let_def l by arith
qed

lemma main_page:
  assumes "main lib u df = Inr (Some p)"
  shows "\<not> df_empty df"
    and "search lib u df = Inr (filtered p)"
    and "sidebar p = (case search_method u of KeywordSearch \<Rightarrow> [] | ColumnFilter \<Rightarrow> facets lib df)"
    and "dataset_info p = col_info df"
  using assms
  by (auto simp add: main_def Let_def split: if_splits sum.splits)

lemma main_no_match:
  assumes "main lib u df = Inr (Some p)" and "df_empty (filtered p)"
  shows "displayed p = None" and "download p = None" and "statistics p = None"
    and "\<not> warning_no_column p" and "info_no_match p"
  using assms
  by (auto simp add: main_def Let_def split: if_splits sum.splits)

lemma main_no_column:
  assumes "main lib u df = Inr (Some p)" and "\<not> df_empty (filtered p)"
    and "display_columns u = []"
  shows "displayed p = None" and "download p = None" and "statistics p = None"
    and "warning_no_column p" and "\<not> info_no_match p"
  using assms
  by (auto simp add: main_def Let_def split: if_splits sum.splits)

lemma main_view:
  assumes "main lib u df = Inr (Some p)" and "\<not> df_empty (filtered p)"
    and "display_columns u \<noteq> []"
  shows "\<exists>view. getitem_cols (filtered p) (display_columns u) = Inr view \<and>
           displayed p = Some view \<and>
           download p = Some (file_name (now u), to_csv lib view) \<and>
           statistics p = Some (describe lib view) \<and>
           \<not> warning_no_column p \<and> \<not> info_no_match p"
  using assms
  by (auto simp add: main_def Let_def split: if_splits sum.splits)

lemma main_returns:
  assumes "\<not> df_empty df" and "set (display_columns u) \<subseteq> set (columns df)"
    and "search_method u = ColumnFilter \<or> search_term u = [] \<or>
         re_compile lib (search_term u) \<noteq> None"
  shows "\<exists>p. main lib u df = Inr (Some p)"
proof -
  from search_returns[OF assms(3)] obtain df' where r: "search lib u df = Inr df'" ..
  from search_is_filter[OF r] have "columns df' = columns df"
    by auto
  with r assms(1,2) show ?thesis
    by (simp add: main_def Let_def getitem_cols_def)
qed

text \<open>
  C8. The multiselects of filtering by column are those of the columns that have between
  1 and 50 distinct values that are not missing, and they are what the sidebar of the
  page shows in that mode.
\<close>

theorem facet_offered_iff:
  "(col \<in> fst ` set (facets lib df) \<longleftrightarrow>
      col \<in> set (columns df) \<and>
      1 \<le> card {v \<in> set (column df col). \<not> isna v} \<and>
      card {v \<in> set (column df col). \<not> isna v} \<le> 50) \<and>
   (main lib u df = Inr (Some p) \<and> search_method u = ColumnFilter \<longrightarrow>
      sidebar p = facets lib df)"
proof -
  have "fst ` set (facets lib df) = {c \<in> set (columns df). offered df c}"
    by (auto simp add: facets_def image_iff)
  then have "col \<in> fst ` set (facets lib df) \<longleftrightarrow>
      col \<in> set (columns df) \<and>
      1 \<le> card {v \<in> set (column df col). \<not> isna v} \<and>
      card {v \<in> set (column df col). \<not> isna v} \<le> 50"
    using offered_card[of df col] by auto
  moreover have "sidebar p = facets lib df"
    if "main lib u df = Inr (Some p) \<and> search_method u = ColumnFilter"
    using that main_page(3)[of lib u df p] by simp
  ultimately show ?thesis by blast
qed

theorem facet_offered_iff_witness:
  "main text_lib pick_red decks =
     Inr (Some \<lparr>sidebar = [(''deck'', [''Blue'', ''Red''])],
                filtered = decks\<lparr>rows := [[Str ''Red''], [Str ''Red'']]\<rparr>,
                displayed = Some (decks\<lparr>rows := [[Str ''Red''], [Str ''Red'']]\<rparr>),
                download = Some (''player_data_20250102_120009.csv'',
                                 ''deck'' @ [CHR 0x0A] @ ''Red'' @ [CHR 0x0A] @ ''Red'' @ [CHR 0x0A]),
                statistics = Some [(''deck'', 2, 1)],
                warning_no_column = False, info_no_match = False,
                dataset_info = [(''deck'', ''object'', 3, 2)]\<rparr>) \<and>
   search_method pick_red = ColumnFilter \<and>
   facets text_lib decks = [(''deck'', [''Blue'', ''Red''])] \<and>
   ''deck'' \<in> set (columns decks) \<and>
   card {v \<in> set (column decks ''deck''). \<not> isna v} = 2"
proof -
  let ?p = "\<lparr>sidebar = [(''deck'', [''Blue'', ''Red''])],
                filtered = decks\<lparr>rows := [[Str ''Red''], [Str ''Red'']]\<rparr>,
                displayed = Some (decks\<lparr>rows := [[Str ''Red''], [Str ''Red'']]\<rparr>),
                download = Some (''player_data_20250102_120009.csv'',
                                 ''deck'' @ [CHR 0x0A] @ ''Red'' @ [CHR 0x0A] @ ''Red'' @ [CHR 0x0A]),
                statistics = Some [(''deck'', 2, 1)],
                warning_no_column = False, info_no_match = False,
                dataset_info = [(''deck'', ''object'', 3, 2)]\<rparr>"
  have run: "main text_lib pick_red decks = Inr (Some ?p)"
    by code_simp
  have m: "search_method pick_red = ColumnFilter"
    by (simp add: pick_red_def)
  have c: "{v \<in> set (column decks ''deck''). \<not> isna v} = {Str ''Red'', Str ''Blue''}"
    by (auto simp add: column_def decks_def)
  from facet_offered_iff[of "''deck''" text_lib decks pick_red ?p] run m
  have "facets text_lib decks = sidebar ?p"
    by simp
  moreover have "''deck'' \<in> set (columns decks)"
    by (simp add: decks_def)
  ultimately show ?thesis
    using run m c by simp
qed

lemma serials_not_offered: "\<not> offered serials ''id''"
  by code_simp

lemma digits_lt10: "n < 10 \<Longrightarrow> length (digits n) = 1"
  by (subst digits.simps) simp

lemma digits_lt100: "10 \<le> n \<Longrightarrow> n < 100 \<Longrightarrow> length (digits n) = 2"
  by (subst digits.simps) (simp add: digits_lt10)

lemma pad2_length: "n < 100 \<Longrightarrow> length (pad2 n) = 2"
  by (cases "n < 10") (simp_all add: pad2_def digits_lt10 digits_lt100)

lemma digits_year:
  assumes "1000 \<le> n" and "n < 10000"
  shows "length (digits n) = 4"
proof -
  from assms have "100 \<le> n div 10" and "n div 10 < 1000"
    by simp_all
  then have "10 \<le> n div 10 div 10" and "n div 10 div 10 < 100"
    by simp_all
  then have "length (digits (n div 10 div 10)) = 2"
    by (rule digits_lt100)
  with \<open>100 \<le> n div 10\<close> have "length (digits (n div 10)) = 3"
    by (subst digits.simps) simp
  with assms show ?thesis
    by (subst digits.simps) simp
qed

lemma strftime_length:
  assumes "1000 \<le> year t" and "year t < 10000" and "month t < 100" and "day t < 100"
    and "hour t < 100" and "minute t < 100" and "second t < 100"
  shows "length (strftime t) = 15"
  using assms by (simp add: strftime_def pad2_length digits_year)

text \<open>
  C2, as the claim states it: the statistics shown are the same whatever the filter.
  On the three decks the statistics shown with \<^verbatim>\<open>Red\<close> selected count 2 cells and 1
  distinct value, those shown with nothing selected count 3 cells and 2 distinct values.
\<close>

theorem statistics_follow_filter:
  "map_sum id (map_option statistics) (main text_lib pick_red decks) =
     Inr (Some (Some [(''deck'', 2, 1)])) \<and>
   map_sum id (map_option statistics) (main text_lib untouched decks) =
     Inr (Some (Some [(''deck'', 3, 2)]))"
  by code_simp

lemma page_dataset_info:
  assumes "main lib u df = Inr (Some p)"
  shows "dataset_info p = col_info df \<and>
         (\<forall>u' p'. main lib u' df = Inr (Some p') \<longrightarrow> dataset_info p' = dataset_info p) \<and>
         search lib u df = Inr (filtered p) \<and>
         (df_empty (filtered p) \<or> display_columns u = [] \<longrightarrow> statistics p = None) \<and>
         (\<not> df_empty (filtered p) \<and> display_columns u \<noteq> [] \<longrightarrow>
            (\<exists>view. getitem_cols (filtered p) (display_columns u) = Inr view \<and>
                    statistics p = Some (describe lib view)))"
proof (intro conjI allI impI)
  show "dataset_info p = col_info df"
    by (rule main_page(4)[OF assms])
  show "dataset_info p' = dataset_info p" if "main lib u' df = Inr (Some p')" for u' p'
    using main_page(4)[OF assms] main_page(4)[OF that] by simp
  show "search lib u df = Inr (filtered p)"
    by (rule main_page(2)[OF assms])
  show "statistics p = None" if "df_empty (filtered p) \<or> display_columns u = []"
    using that main_no_match(3)[OF assms] main_no_column(3)[OF assms] by blast
  show "\<exists>view. getitem_cols (filtered p) (display_columns u) = Inr view \<and>
               statistics p = Some (describe lib view)"
    if "\<not> df_empty (filtered p) \<and> display_columns u \<noteq> []"
    using that main_view[OF assms] by blast
qed

text \<open>
  C2, amended. For a loaded table with rows, a keyword that compiles and displayed
  columns of the table, the page is built, and on it: the column list (name, storage
  type, non-missing count, distinct count) is computed from the loaded table and is the
  same under every filter and every choice of the user; the statistics are
  \<^verbatim>\<open>describe()\<close> of the filtered rows restricted to the columns selected for display, and
  none are shown when the filtered table is empty or no column is selected.
\<close>

theorem dataset_info_unfiltered:
  assumes "\<not> df_empty df" and "set (display_columns u) \<subseteq> set (columns df)"
    and "search_method u = ColumnFilter \<or> search_term u = [] \<or>
         re_compile lib (search_term u) \<noteq> None"
  shows "\<exists>p. main lib u df = Inr (Some p) \<and>
           dataset_info p = col_info df \<and>
           (\<forall>u' p'. main lib u' df = Inr (Some p') \<longrightarrow> dataset_info p' = dataset_info p) \<and>
           search lib u df = Inr (filtered p) \<and>
           (df_empty (filtered p) \<or> display_columns u = [] \<longrightarrow> statistics p = None) \<and>
           (\<not> df_empty (filtered p) \<and> display_columns u \<noteq> [] \<longrightarrow>
              (\<exists>view. getitem_cols (filtered p) (display_columns u) = Inr view \<and>
                      statistics p = Some (describe lib view)))"
proof -
  from main_returns[OF assms] obtain p where r: "main lib u df = Inr (Some p)" ..
  from page_dataset_info[OF r] r show ?thesis
    by (intro exI[of _ p]) simp
qed

theorem dataset_info_unfiltered_witness:
  "\<not> df_empty decks \<and> set (display_columns pick_red) \<subseteq> set (columns decks) \<and>
   search_method pick_red = ColumnFilter \<and>
   main text_lib pick_red decks =
     Inr (Some \<lparr>sidebar = [(''deck'', [''Blue'', ''Red''])],
                filtered = decks\<lparr>rows := [[Str ''Red''], [Str ''Red'']]\<rparr>,
                displayed = Some (decks\<lparr>rows := [[Str ''Red''], [Str ''Red'']]\<rparr>),
                download = Some (''player_data_20250102_120009.csv'',
                                 ''deck'' @ [CHR 0x0A] @ ''Red'' @ [CHR 0x0A] @ ''Red'' @ [CHR 0x0A]),
                statistics = Some [(''deck'', 2, 1)],
                warning_no_column = False, info_no_match = False,
                dataset_info = [(''deck'', ''object'', 3, 2)]\<rparr>) \<and>
   col_info decks = [(''deck'', ''object'', 3, 2)]"
proof -
  let ?p = "\<lparr>sidebar = [(''deck'', [''Blue'', ''Red''])],
                filtered = decks\<lparr>rows := [[Str ''Red''], [Str ''Red'']]\<rparr>,
                displayed = Some (decks\<lparr>rows := [[Str ''Red''], [Str ''Red'']]\<rparr>),
                download = Some (''player_data_20250102_120009.csv'',
                                 ''deck'' @ [CHR 0x0A] @ ''Red'' @ [CHR 0x0A] @ ''Red'' @ [CHR 0x0A]),
                statistics = Some [(''deck'', 2, 1)],
                warning_no_column = False, info_no_match = False,
                dataset_info = [(''deck'', ''object'', 3, 2)]\<rparr>"
  have run: "main text_lib pick_red decks = Inr (Some ?p)"
    by code_simp
  have a: "\<not> df_empty decks"
    by (simp add: df_empty_def decks_def)
  have b: "set (display_columns pick_red) \<subseteq> set (columns decks)"
    by (simp add: pick_red_def decks_def)
  have m: "search_method pick_red = ColumnFilter"
    by (simp add: pick_red_def)
  from m have c: "search_method pick_red = ColumnFilter \<or> search_term pick_red = [] \<or>
      re_compile text_lib (search_term pick_red) \<noteq> None"
    by simp
  from dataset_info_unfiltered[OF a b c] obtain p
    where "main text_lib pick_red decks = Inr (Some p)" and "dataset_info p = col_info decks"
    by blast
  with run have "col_info decks = [(''deck'', ''object'', 3, 2)]"
    by simp
  with run a b m show ?thesis
    by simp
qed

text \<open>
  C9, as the claim states it: in every state, a selection of at least one column gives a
  file and a selection of no column gives the warning. With a keyword that matches no
  row of the three decks, the page offers no download although the column \<^verbatim>\<open>deck\<close> is
  selected, and with no column selected it shows the message of line 215, not the warning.
\<close>

theorem no_match_no_export:
  "main text_lib no_match decks =
     Inr (Some \<lparr>sidebar = [], filtered = decks\<lparr>rows := []\<rparr>, displayed = None,
                download = None, statistics = None, warning_no_column = False,
                info_no_match = True, dataset_info = [(''deck'', ''object'', 3, 2)]\<rparr>) \<and>
   display_columns no_match = [''deck''] \<and>
   main text_lib (no_match\<lparr>display_columns := []\<rparr>) decks =
     Inr (Some \<lparr>sidebar = [], filtered = decks\<lparr>rows := []\<rparr>, displayed = None,
                download = None, statistics = None, warning_no_column = False,
                info_no_match = True, dataset_info = [(''deck'', ''object'', 3, 2)]\<rparr>)"
  by code_simp

lemma of_char_char_of: "n < 256 \<Longrightarrow> of_char (char_of n :: char) = (n::nat)"
  by simp

lemma div_4096: "(c::nat) div 0x1000 * 0x40 + c div 0x40 mod 0x40 = c div 0x40"
proof -
  have "c div 0x1000 = c div 0x40 div 0x40" by (simp add: div_mult2_eq[symmetric])
  then show ?thesis by simp
qed

lemma div_262144: "(c::nat) div 0x40000 * 0x40 + c div 0x1000 mod 0x40 = c div 0x1000"
proof -
  have "c div 0x40000 = c div 0x1000 div 0x40" by (simp add: div_mult2_eq[symmetric])
  then show ?thesis by simp
qed

lemma decode_ascii:
  assumes "n < 0x80"
  shows "decode_from 0 0 0 acc (char_of n # bs) = decode_from 0 0 0 (n # acc) bs"
  using assms by (simp add: decode_from.simps(2) of_char_char_of)

lemma decode_lead2:
  assumes "n < 0x20"
  shows "decode_from 0 0 0 acc (char_of (0xC0 + n) # bs) = decode_from 1 n 0x80 acc bs"
  using assms by (simp add: decode_from.simps(2) of_char_char_of)

lemma decode_lead3:
  assumes "n < 0x10"
  shows "decode_from 0 0 0 acc (char_of (0xE0 + n) # bs) = decode_from 2 n 0x800 acc bs"
  using assms by (simp add: decode_from.simps(2) of_char_char_of)

lemma decode_lead4:
  assumes "n < 0x8"
  shows "decode_from 0 0 0 acc (char_of (0xF0 + n) # bs) = decode_from 3 n 0x10000 acc bs"
  using assms by (simp add: decode_from.simps(2) of_char_char_of)

lemma decode_cont:
  assumes "x < 0x40" and "1 < k"
  shows "decode_from k v lo acc (char_of (0x80 + x) # bs) = decode_from (k - 1) (v * 0x40 + x) lo acc bs"
  using assms by (simp add: decode_from.simps(2) of_char_char_of)

lemma decode_last:
  assumes "x < 0x40" and "lo \<le> v * 0x40 + x" and "scalar_value (v * 0x40 + x)"
  shows "decode_from 1 v lo acc (char_of (0x80 + x) # bs) = decode_from 0 0 0 ((v * 0x40 + x) # acc) bs"
  using assms by (simp add: decode_from.simps(2) of_char_char_of)

lemma decode_char:
  assumes "scalar_value c"
  shows "decode_from 0 0 0 acc (utf8_char c @ bs) = decode_from 0 0 0 (c # acc) bs"
proof -
  have m: "c div 0x40 * 0x40 + c mod 0x40 = c"
    by simp
  have x0: "c mod 0x40 < 0x40" and x1: "c div 0x40 mod 0x40 < 0x40"
    and x2: "c div 0x1000 mod 0x40 < 0x40"
    by simp_all
  consider "c < 0x80" | "0x80 \<le> c" "c < 0x800" | "0x800 \<le> c" "c < 0x10000" | "0x10000 \<le> c"
    by linarith
  then show ?thesis
  proof cases
    case 1
    then have "utf8_char c = [char_of c]"
      by (simp add: utf8_char_def)
    then have "decode_from 0 0 0 acc (utf8_char c @ bs) = decode_from 0 0 0 acc (char_of c # bs)"
      by simp
    also have "\<dots> = decode_from 0 0 0 (c # acc) bs"
      by (rule decode_ascii[OF 1])
    finally show ?thesis .
  next
    case 2
    then have a: "c div 0x40 < 0x20"
      by simp
    from 2 have "utf8_char c = [char_of (0xC0 + c div 0x40), char_of (0x80 + c mod 0x40)]"
      by (simp add: utf8_char_def)
    then have "decode_from 0 0 0 acc (utf8_char c @ bs) =
        decode_from 0 0 0 acc (char_of (0xC0 + c div 0x40) # char_of (0x80 + c mod 0x40) # bs)"
      by simp
    also have "\<dots> = decode_from 1 (c div 0x40) 0x80 acc (char_of (0x80 + c mod 0x40) # bs)"
      by (rule decode_lead2[OF a])
    also have "\<dots> = decode_from 0 0 0 ((c div 0x40 * 0x40 + c mod 0x40) # acc) bs"
      using 2 assms by (intro decode_last x0) (simp_all only: m)
    finally show ?thesis
      by (simp only: m)
  next
    case 3
    then have a: "c div 0x1000 < 0x10"
      by simp
    from 3 have "utf8_char c =
        [char_of (0xE0 + c div 0x1000), char_of (0x80 + c div 0x40 mod 0x40),
         char_of (0x80 + c mod 0x40)]"
      by (simp add: utf8_char_def)
    then have "decode_from 0 0 0 acc (utf8_char c @ bs) =
        decode_from 0 0 0 acc (char_of (0xE0 + c div 0x1000) #
          char_of (0x80 + c div 0x40 mod 0x40) # char_of (0x80 + c mod 0x40) # bs)"
      by simp
    also have "\<dots> = decode_from 2 (c div 0x1000) 0x800 acc
          (char_of (0x80 + c div 0x40 mod 0x40) # char_of (0x80 + c mod 0x40) # bs)"
      by (rule decode_lead3[OF a])
    also have "\<dots> = decode_from (2 - 1) (c div 0x1000 * 0x40 + c div 0x40 mod 0x40) 0x800 acc
          (char_of (0x80 + c mod 0x40) # bs)"
      by (rule decode_cont[OF x1]) simp
    also have "\<dots> = decode_from 1 (c div 0x40) 0x800 acc (char_of (0x80 + c mod 0x40) # bs)"
      by (simp only: div_4096) simp
    also have "\<dots> = decode_from 0 0 0 ((c div 0x40 * 0x40 + c mod 0x40) # acc) bs"
      using 3 assms by (intro decode_last x0) (simp_all only: m)
    finally show ?thesis
      by (simp only: m)
  next
    case 4
    from assms 4 have "c < 0x110000"
      by (simp add: scalar_value_def)
    then have a: "c div 0x40000 < 0x8"
      by simp
    from 4 have "utf8_char c =
        [char_of (0xF0 + c div 0x40000), char_of (0x80 + c div 0x1000 mod 0x40),
         char_of (0x80 + c div 0x40 mod 0x40), char_of (0x80 + c mod 0x40)]"
      by (simp add: utf8_char_def)
    then have "decode_from 0 0 0 acc (utf8_char c @ bs) =
        decode_from 0 0 0 acc (char_of (0xF0 + c div 0x40000) #
          char_of (0x80 + c div 0x1000 mod 0x40) # char_of (0x80 + c div 0x40 mod 0x40) #
          char_of (0x80 + c mod 0x40) # bs)"
      by simp
    also have "\<dots> = decode_from 3 (c div 0x40000) 0x10000 acc
          (char_of (0x80 + c div 0x1000 mod 0x40) # char_of (0x80 + c div 0x40 mod 0x40) #
           char_of (0x80 + c mod 0x40) # bs)"
      by (rule decode_lead4[OF a])
    also have "\<dots> = decode_from (3 - 1) (c div 0x40000 * 0x40 + c div 0x1000 mod 0x40) 0x10000 acc
          (char_of (0x80 + c div 0x40 mod 0x40) # char_of (0x80 + c mod 0x40) # bs)"
      by (rule decode_cont[OF x2]) simp
    also have "\<dots> = decode_from 2 (c div 0x1000) 0x10000 acc
          (char_of (0x80 + c div 0x40 mod 0x40) # char_of (0x80 + c mod 0x40) # bs)"
      by (simp only: div_262144) simp
    also have "\<dots> = decode_from (2 - 1) (c div 0x1000 * 0x40 + c div 0x40 mod 0x40) 0x10000 acc
          (char_of (0x80 + c mod 0x40) # bs)"
      by (rule decode_cont[OF x1]) simp
    also have "\<dots> = decode_from 1 (c div 0x40) 0x10000 acc (char_of (0x80 + c mod 0x40) # bs)"
      by (simp only: div_4096) simp
    also have "\<dots> = decode_from 0 0 0 ((c div 0x40 * 0x40 + c mod 0x40) # acc) bs"
      using 4 assms by (intro decode_last x0) (simp_all only: m)
    finally show ?thesis
      by (simp only: m)
  qed
qed

lemma decode_encode_from:
  assumes "list_all scalar_value cs"
  shows "decode_from 0 0 0 acc (utf8_encode cs @ bs) = decode_from 0 0 0 (rev cs @ acc) bs"
  using assms
proof (induction cs arbitrary: acc)
  case Nil
  then show ?case by (simp add: utf8_encode_def)
next
  case (Cons c cs)
  then have "decode_from 0 0 0 (c # acc) (utf8_encode cs @ bs) = decode_from 0 0 0 (rev cs @ c # acc) bs"
    by simp
  with Cons.prems show ?case
    by (simp add: utf8_encode_def decode_char)
qed

lemma utf8_roundtrip:
  assumes "list_all scalar_value cs"
  shows "utf8_decode (utf8_encode cs) = Some cs"
  using decode_encode_from[OF assms, of "[]" "[]"] by (simp add: utf8_decode_def)

lemma page_export:
  assumes "main lib u df = Inr (Some p)"
  shows "(df_empty (filtered p) \<longrightarrow>
            download p = None \<and> \<not> warning_no_column p \<and> info_no_match p) \<and>
         (\<not> df_empty (filtered p) \<and> display_columns u = [] \<longrightarrow>
            download p = None \<and> warning_no_column p) \<and>
         (\<not> df_empty (filtered p) \<and> display_columns u \<noteq> [] \<longrightarrow>
            \<not> warning_no_column p \<and>
            (\<exists>view data. getitem_cols (filtered p) (display_columns u) = Inr view \<and>
               columns view = display_columns u \<and>
               length (rows view) = length (rows (filtered p)) \<and>
               download p = Some (''player_data_'' @ strftime (now u) @ ''.csv'', data) \<and>
               data = csv_writerow lib (display_columns u) @
                      concat (map (\<lambda>row. csv_writerow lib (map (csv_value (csv_str lib)) row))
                                (rows view)) \<and>
               (\<forall>cs. list_all scalar_value cs \<and> utf8_encode cs = to_csv lib view \<longrightarrow>
                     utf8_decode data = Some cs)))"
proof -
  have empty: "download p = None \<and> \<not> warning_no_column p \<and> info_no_match p"
    if "df_empty (filtered p)"
    using main_no_match[OF assms that] by simp
  have none: "download p = None \<and> warning_no_column p"
    if "\<not> df_empty (filtered p) \<and> display_columns u = []"
    using that main_no_column[OF assms] by simp
  have some: "\<not> warning_no_column p \<and>
            (\<exists>view data. getitem_cols (filtered p) (display_columns u) = Inr view \<and>
               columns view = display_columns u \<and>
               length (rows view) = length (rows (filtered p)) \<and>
               download p = Some (''player_data_'' @ strftime (now u) @ ''.csv'', data) \<and>
               data = csv_writerow lib (display_columns u) @
                      concat (map (\<lambda>row. csv_writerow lib (map (csv_value (csv_str lib)) row))
                                (rows view)) \<and>
               (\<forall>cs. list_all scalar_value cs \<and> utf8_encode cs = to_csv lib view \<longrightarrow>
                     utf8_decode data = Some cs))"
    if h: "\<not> df_empty (filtered p) \<and> display_columns u \<noteq> []"
  proof -
    from h main_view[OF assms] obtain view
      where v: "getitem_cols (filtered p) (display_columns u) = Inr view"
        and d: "download p = Some (file_name (now u), to_csv lib view)"
        and w: "\<not> warning_no_column p"
      by blast
    from v have c: "columns view = display_columns u"
      and l: "length (rows view) = length (rows (filtered p))"
      by (auto simp add: getitem_cols_def split: if_splits)
    have r: "utf8_decode (to_csv lib view) = Some cs"
      if "list_all scalar_value cs \<and> utf8_encode cs = to_csv lib view" for cs
      using that utf8_roundtrip[of cs] by auto
    from c have t: "to_csv lib view = csv_writerow lib (display_columns u) @
                      concat (map (\<lambda>row. csv_writerow lib (map (csv_value (csv_str lib)) row))
                                (rows view))"
      by (simp add: to_csv_def)
    from d have "download p = Some (''player_data_'' @ strftime (now u) @ ''.csv'', to_csv lib view)"
      by (simp add: file_name_def)
    with v c l t r w show ?thesis
      by (intro conjI exI[of _ view] exI[of _ "to_csv lib view"]) auto
  qed
  from empty none some show ?thesis
    by blast
qed

text \<open>
  C9, amended. For a loaded table with rows, a keyword that compiles and displayed columns
  of the table, the page is built, and on it: when the filtered table has a row and no
  column is selected, the warning is shown and no download is offered; when it has a row
  and at least one column is selected, the download is offered under the name
  \<^verbatim>\<open>player_data_\<close>, the time stamp of 15 characters and \<^verbatim>\<open>.csv\<close>, and holds the header
  record of the selected columns followed by one record for each filtered row, in UTF-8,
  which preserves every text: reading the bytes as UTF-8 gives back the code points of
  the text; when the filtered table is empty, no download is offered and the message that
  nothing matched is shown instead of the warning, whatever the selection.
\<close>

theorem export_guarded:
  assumes "\<not> df_empty df" and "set (display_columns u) \<subseteq> set (columns df)"
    and "search_method u = ColumnFilter \<or> search_term u = [] \<or>
         re_compile lib (search_term u) \<noteq> None"
  shows "\<exists>p. main lib u df = Inr (Some p) \<and>
         (df_empty (filtered p) \<longrightarrow>
            download p = None \<and> \<not> warning_no_column p \<and> info_no_match p) \<and>
         (\<not> df_empty (filtered p) \<and> display_columns u = [] \<longrightarrow>
            download p = None \<and> warning_no_column p) \<and>
         (\<not> df_empty (filtered p) \<and> display_columns u \<noteq> [] \<longrightarrow>
            \<not> warning_no_column p \<and>
            (\<exists>view data. getitem_cols (filtered p) (display_columns u) = Inr view \<and>
               columns view = display_columns u \<and>
               length (rows view) = length (rows (filtered p)) \<and>
               download p = Some (''player_data_'' @ strftime (now u) @ ''.csv'', data) \<and>
               data = csv_writerow lib (display_columns u) @
                      concat (map (\<lambda>row. csv_writerow lib (map (csv_value (csv_str lib)) row))
                                (rows view)) \<and>
               (\<forall>cs. list_all scalar_value cs \<and> utf8_encode cs = to_csv lib view \<longrightarrow>
                     utf8_decode data = Some cs))) \<and>
         (1000 \<le> year (now u) \<and> year (now u) < 10000 \<and> month (now u) < 100 \<and>
          day (now u) < 100 \<and> hour (now u) < 100 \<and> minute (now u) < 100 \<and>
          second (now u) < 100 \<longrightarrow> length (strftime (now u)) = 15)"
proof -
  from main_returns[OF assms] obtain p where r: "main lib u df = Inr (Some p)" ..
  have stamp: "length (strftime (now u)) = 15"
    if "1000 \<le> year (now u) \<and> year (now u) < 10000 \<and> month (now u) < 100 \<and>
        day (now u) < 100 \<and> hour (now u) < 100 \<and> minute (now u) < 100 \<and> second (now u) < 100"
    using that by (simp add: strftime_length)
  from page_export[OF r] r stamp show ?thesis
    by (intro exI[of _ p]) blast
qed

theorem export_guarded_witness:
  "\<not> df_empty kana_decks \<and> set (display_columns untouched) \<subseteq> set (columns kana_decks) \<and>
   search_method untouched = ColumnFilter \<and>
   main text_lib untouched kana_decks =
     Inr (Some \<lparr>sidebar = [(''deck'', [win_token])],
                filtered = kana_decks, displayed = Some kana_decks,
                download = Some (''player_data_20250102_120009.csv'',
                                 ''deck'' @ [CHR 0x0A] @ win_token @ [CHR 0x0A]),
                statistics = Some [(''deck'', 1, 1)],
                warning_no_column = False, info_no_match = False,
                dataset_info = [(''deck'', ''object'', 1, 1)]\<rparr>) \<and>
   length (strftime (now untouched)) = 15 \<and>
   utf8_decode (''deck'' @ [CHR 0x0A] @ win_token @ [CHR 0x0A]) =
     Some [0x64, 0x65, 0x63, 0x6B, 0x0A, 0x52DD, 0x3061, 0x0A] \<and>
   main text_lib (untouched\<lparr>display_columns := []\<rparr>) kana_decks =
     Inr (Some \<lparr>sidebar = [(''deck'', [win_token])],
                filtered = kana_decks, displayed = None, download = None, statistics = None,
                warning_no_column = True, info_no_match = False,
                dataset_info = [(''deck'', ''object'', 1, 1)]\<rparr>)"
proof -
  let ?data = "''deck'' @ [CHR 0x0A] @ win_token @ [CHR 0x0A]"
  let ?cs = "[0x64, 0x65, 0x63, 0x6B, 0x0A, 0x52DD, 0x3061, 0x0A] :: nat list"
  let ?p = "\<lparr>sidebar = [(''deck'', [win_token])],
                filtered = kana_decks, displayed = Some kana_decks,
                download = Some (''player_data_20250102_120009.csv'', ?data),
                statistics = Some [(''deck'', 1, 1)],
                warning_no_column = False, info_no_match = False,
                dataset_info = [(''deck'', ''object'', 1, 1)]\<rparr>"
  let ?q = "\<lparr>sidebar = [(''deck'', [win_token])],
                filtered = kana_decks, displayed = None, download = None, statistics = None,
                warning_no_column = True, info_no_match = False,
                dataset_info = [(''deck'', ''object'', 1, 1)]\<rparr>"
  have run: "main text_lib untouched kana_decks = Inr (Some ?p)"
    by code_simp
  have run': "main text_lib (untouched\<lparr>display_columns := []\<rparr>) kana_decks = Inr (Some ?q)"
    by code_simp
  have a: "\<not> df_empty kana_decks"
    by (simp add: df_empty_def kana_decks_def)
  have b: "set (display_columns untouched) \<subseteq> set (columns kana_decks)"
    by (simp add: untouched_def kana_decks_def)
  have m: "search_method untouched = ColumnFilter"
    by (simp add: untouched_def)
  from m have c: "search_method untouched = ColumnFilter \<or> search_term untouched = [] \<or>
      re_compile text_lib (search_term untouched) \<noteq> None"
    by simp
  have t: "1000 \<le> year (now untouched) \<and> year (now untouched) < 10000 \<and>
           month (now untouched) < 100 \<and> day (now untouched) < 100 \<and>
           hour (now untouched) < 100 \<and> minute (now untouched) < 100 \<and>
           second (now untouched) < 100"
    by (simp add: untouched_def noon_def)
  have d: "display_columns untouched \<noteq> []"
    by (simp add: untouched_def)
  have v: "getitem_cols kana_decks (display_columns untouched) = Inr kana_decks"
    by (simp add: getitem_cols_def untouched_def kana_decks_def)
  have csv: "to_csv text_lib kana_decks = ?data"
    by (simp add: to_csv_def text_lib_def kana_decks_def)
  have enc: "utf8_encode ?cs = ?data"
    by (simp add: utf8_encode_def utf8_char_def win_token_def char_of_def bit_Suc_0_iff)
  have sc: "list_all scalar_value ?cs"
    by (simp add: scalar_value_def)
  from export_guarded[OF a b c] obtain p where p: "main text_lib untouched kana_decks = Inr (Some p)"
    and e: "\<not> df_empty (filtered p) \<and> display_columns untouched \<noteq> [] \<longrightarrow>
            \<not> warning_no_column p \<and>
            (\<exists>view data. getitem_cols (filtered p) (display_columns untouched) = Inr view \<and>
               columns view = display_columns untouched \<and>
               length (rows view) = length (rows (filtered p)) \<and>
               download p = Some (''player_data_'' @ strftime (now untouched) @ ''.csv'', data) \<and>
               data = csv_writerow text_lib (display_columns untouched) @
                      concat (map (\<lambda>row. csv_writerow text_lib (map (csv_value (csv_str text_lib)) row))
                                (rows view)) \<and>
               (\<forall>cs. list_all scalar_value cs \<and> utf8_encode cs = to_csv text_lib view \<longrightarrow>
                     utf8_decode data = Some cs))"
    and st: "1000 \<le> year (now untouched) \<and> year (now untouched) < 10000 \<and>
          month (now untouched) < 100 \<and> day (now untouched) < 100 \<and>
          hour (now untouched) < 100 \<and> minute (now untouched) < 100 \<and>
          second (now untouched) < 100 \<longrightarrow> length (strftime (now untouched)) = 15"
    by blast
  from p run have pp: "p = ?p"
    by simp
  from e a d v obtain data
    where dl: "download p = Some (''player_data_'' @ strftime (now untouched) @ ''.csv'', data)"
      and rt: "\<forall>cs. list_all scalar_value cs \<and> utf8_encode cs = to_csv text_lib kana_decks \<longrightarrow>
                   utf8_decode data = Some cs"
    unfolding pp by auto
  from dl have "data = ?data"
    unfolding pp by simp
  with rt sc enc csv have "utf8_decode ?data = Some ?cs"
    by simp
  with st t run run' a b m show ?thesis
    by simp
qed

section \<open>Properties of the quick statistics\<close>

lemma round_half_even_le:
  assumes "x \<le> of_int m"
  shows "round_half_even x \<le> m"
proof (cases "x = of_int m")
  case True
  then show ?thesis by (simp add: round_half_even_def)
next
  case False
  with assms have "x < of_int m" by simp
  then have "\<lfloor>x\<rfloor> < m" by (simp add: floor_less_iff)
  then show ?thesis by (simp add: round_half_even_def Let_def)
qed

lemma round_half_even_nonneg:
  assumes "0 \<le> x"
  shows "0 \<le> round_half_even x"
proof -
  from assms have "0 \<le> \<lfloor>x\<rfloor>" by simp
  then show ?thesis by (simp add: round_half_even_def Let_def)
qed

lemma bitlen_lower:
  assumes "0 < a"
  shows "(2::rat) powi (bitlen a - 1) \<le> of_int a"
proof -
  from assms have b: "1 \<le> bitlen a" by (simp add: bitlen_alt_def)
  from bitlen_bounds[OF assms] have "2 ^ nat (bitlen a - 1) \<le> a" by simp
  then have "(of_int (2 ^ nat (bitlen a - 1)) :: rat) \<le> of_int a"
    by (simp only: of_int_le_iff)
  with b show ?thesis by (simp add: power_int_def)
qed

lemma bitlen_upper:
  assumes "0 < a"
  shows "of_int a < (2::rat) powi (bitlen a)"
proof -
  from bitlen_bounds[OF assms] have "a < 2 ^ nat (bitlen a)" by simp
  then have "(of_int a :: rat) < of_int (2 ^ nat (bitlen a))"
    by (simp only: of_int_less_iff)
  then show ?thesis by (simp add: power_int_def bitlen_nonneg)
qed

lemma pow2_diff: "(2::rat) powi (m - n) = 2 powi m / 2 powi n"
  by (rule power_int_diff) simp

lemma exponent_bounds:
  assumes "0 < x"
  shows "2 powi (exponent x) \<le> x" and "x < 2 powi (exponent x + 1)"
proof -
  obtain a b where q: "quotient_of x = (a, b)" by (cases "quotient_of x")
  then have b: "0 < b" and x: "x = of_int a / of_int b"
    by (simp_all add: quotient_of_denom_pos quotient_of_div)
  with assms have a: "0 < a" by (simp add: zero_less_divide_iff)
  let ?e = "bitlen a - bitlen b"
  have lo: "(2::rat) powi (?e - 1) \<le> x"
  proof -
    have "?e - 1 = (bitlen a - 1) - bitlen b"
      by simp
    then have "(2::rat) powi (?e - 1) = 2 powi (bitlen a - 1) / 2 powi (bitlen b)"
      by (simp only: pow2_diff)
    also have "\<dots> \<le> of_int a / 2 powi (bitlen b)"
      using bitlen_lower[OF a] by (simp add: divide_right_mono)
    also have "\<dots> \<le> of_int a / of_int b"
      using bitlen_upper[OF b] a b by (simp add: frac_le)
    finally show ?thesis by (simp add: x)
  qed
  have hi: "x < (2::rat) powi (?e + 1)"
  proof -
    have "x = of_int a / of_int b" by (rule x)
    also have "\<dots> < 2 powi (bitlen a) / of_int b"
      using bitlen_upper[OF a] b by (simp add: divide_strict_right_mono)
    also have "\<dots> \<le> 2 powi (bitlen a) / 2 powi (bitlen b - 1)"
      using bitlen_lower[OF b] by (intro divide_left_mono) (simp_all add: b)
    also have "\<dots> = 2 powi (bitlen a - (bitlen b - 1))"
      by (simp only: pow2_diff)
    also have "bitlen a - (bitlen b - 1) = ?e + 1"
      by simp
    finally show ?thesis .
  qed
  show "2 powi (exponent x) \<le> x"
    using lo q by (simp add: exponent_def Let_def)
  show "x < 2 powi (exponent x + 1)"
    using hi q by (auto simp add: exponent_def Let_def not_le)
qed

lemma float_round_nonneg:
  assumes "0 \<le> x"
  shows "0 \<le> float_round x"
proof (cases "x = 0")
  case True
  then show ?thesis by (simp add: float_round_def)
next
  case False
  let ?u = "(2::rat) powi (exponent \<bar>x\<bar> - 52)"
  have u: "0 < ?u" by simp
  with assms have "0 \<le> x / ?u" by simp
  then have "0 \<le> round_half_even (x / ?u)" by (rule round_half_even_nonneg)
  with u False show ?thesis by (simp add: float_round_def Let_def)
qed

lemma float_round_le:
  assumes "0 \<le> x" and "x \<le> of_int m" and "m < 2 ^ 53"
  shows "float_round x \<le> of_int m"
proof (cases "x = 0")
  case True
  with assms show ?thesis by (simp add: float_round_def)
next
  case False
  with assms have pos: "0 < x" by simp
  let ?e = "exponent x"
  let ?n = "nat (52 - ?e)"
  have e: "?e \<le> 52"
  proof (rule ccontr)
    assume "\<not> ?e \<le> 52"
    then have "53 \<le> ?e" by simp
    then have "(2::rat) powi 53 \<le> 2 powi ?e" by (intro power_int_increasing) simp_all
    also have "\<dots> \<le> x" by (rule exponent_bounds(1)[OF pos])
    also have "\<dots> \<le> of_int m" by (rule assms(2))
    also have "\<dots> < of_int (2 ^ 53)" using assms(3) by (simp only: of_int_less_iff)
    finally show False by simp
  qed
  have u: "(2::rat) powi (?e - 52) = 1 / 2 ^ ?n"
  proof -
    from e have "?e - 52 = - int ?n" by simp
    then have "(2::rat) powi (?e - 52) = 2 powi (- int ?n)" by (rule arg_cong)
    also have "\<dots> = inverse (2 powi int ?n)" by (rule power_int_minus)
    also have "\<dots> = 1 / 2 ^ ?n" by (simp only: power_int_of_nat inverse_eq_divide)
    finally show ?thesis .
  qed
  have "x / (1 / 2 ^ ?n) = x * 2 ^ ?n" by simp
  also have "\<dots> \<le> of_int m * 2 ^ ?n" using assms(2) by (simp add: mult_right_mono)
  also have "\<dots> = of_int (m * 2 ^ ?n)" by simp
  finally have "round_half_even (x / (1 / 2 ^ ?n)) \<le> m * 2 ^ ?n"
    by (rule round_half_even_le)
  then have "(of_int (round_half_even (x / (1 / 2 ^ ?n))) :: rat) \<le> of_int (m * 2 ^ ?n)"
    by (simp only: of_int_le_iff)
  then have "of_int (round_half_even (x / (1 / 2 ^ ?n))) * (1 / 2 ^ ?n)
             \<le> (of_int (m * 2 ^ ?n) :: rat) * (1 / 2 ^ ?n)"
    by (intro mult_right_mono) simp_all
  also have "(of_int (m * 2 ^ ?n) :: rat) * (1 / 2 ^ ?n) = of_int m" by simp
  finally show ?thesis
    using False pos u by (simp add: float_round_def Let_def)
qed

lemma percentage_bounds:
  assumes "w \<le> n"
  shows "0 \<le> float_round (float_round (of_nat w / of_nat n) * 100)"
    and "float_round (float_round (of_nat w / of_nat n) * 100) \<le> 100"
proof -
  let ?q = "float_round (of_nat w / of_nat n)"
  have q0: "0 \<le> ?q" by (intro float_round_nonneg) simp
  have "(of_nat w / of_nat n :: rat) \<le> of_int 1" using assms by (auto simp add: divide_le_eq_1)
  then have "?q \<le> of_int 1" by (intro float_round_le) simp_all
  then have q100: "?q * 100 \<le> of_int 100" by simp
  from q0 have "0 \<le> ?q * 100" by simp
  then show "0 \<le> float_round (?q * 100)"
    by (rule float_round_nonneg)
  have "float_round (?q * 100) \<le> of_int 100"
    using q0 q100 by (intro float_round_le) simp_all
  then show "float_round (?q * 100) \<le> 100"
    by simp
qed

lemma round_half_even_error: "\<bar>of_int (round_half_even x) - x\<bar> \<le> 1 / 2"
proof -
  have "of_int \<lfloor>x\<rfloor> \<le> x" and "x < of_int \<lfloor>x\<rfloor> + 1"
    by linarith+
  then show ?thesis
    by (auto simp add: round_half_even_def Let_def abs_le_iff)
qed

lemma exponent_le:
  assumes "0 < x" and "x < 2 powi (k + 1)"
  shows "exponent x \<le> k"
proof (rule ccontr)
  assume "\<not> exponent x \<le> k"
  then have "k + 1 \<le> exponent x" by simp
  then have "(2::rat) powi (k + 1) \<le> 2 powi (exponent x)"
    by (intro power_int_increasing) simp_all
  also have "\<dots> \<le> x" by (rule exponent_bounds(1)[OF assms(1)])
  finally show False using assms(2) by simp
qed

lemma float_round_error:
  assumes "0 \<le> x" and "x < 2 powi (k + 1)"
  shows "\<bar>float_round x - x\<bar> \<le> 2 powi (k - 53)"
proof (cases "x = 0")
  case True
  then show ?thesis by (simp add: float_round_def less_imp_le)
next
  case False
  with assms have pos: "0 < x" by simp
  let ?u = "(2::rat) powi (exponent x - 52)"
  have u: "0 < ?u" by simp
  have "float_round x - x = (of_int (round_half_even (x / ?u)) - x / ?u) * ?u"
    using False pos u by (simp add: float_round_def Let_def field_simps)
  then have "\<bar>float_round x - x\<bar> = \<bar>of_int (round_half_even (x / ?u)) - x / ?u\<bar> * ?u"
    using u by (simp add: abs_mult)
  also have "\<dots> \<le> 1 / 2 * ?u"
    using u round_half_even_error[of "x / ?u"] by (intro mult_right_mono) simp_all
  also have "1 / 2 * ?u = 2 powi (exponent x - 53)"
  proof -
    have "exponent x - 53 = (exponent x - 52) - 1" by simp
    then have "(2::rat) powi (exponent x - 53) = ?u / 2 powi 1" by (simp only: pow2_diff)
    then show ?thesis by simp
  qed
  also have "\<dots> \<le> 2 powi (k - 53)"
    using exponent_le[OF pos assms(2)] by (intro power_int_increasing) simp_all
  finally show ?thesis .
qed

lemma percentage_error:
  assumes "w \<le> n" and "0 < n"
  shows "\<bar>float_round (float_round (of_nat w / of_nat n) * 100) - 100 * of_nat w / of_nat n\<bar>
         \<le> 1 / 2 ^ 45"
proof -
  let ?x = "of_nat w / of_nat n :: rat"
  let ?q = "float_round ?x"
  have x0: "0 \<le> ?x" by simp
  have x1: "?x \<le> 1" using assms by (simp add: divide_le_eq_1)
  then have "?x < 2 powi (0 + 1)" by simp
  from float_round_error[OF x0 this] have "\<bar>?q - ?x\<bar> \<le> 2 powi (0 - 53)" .
  also have "(2::rat) powi (0 - 53) = 1 / 2 ^ 53"
    by (simp add: power_int_def power_one_over)
  finally have e1: "\<bar>?q - ?x\<bar> \<le> 1 / 2 ^ 53" .
  have q0: "0 \<le> ?q" by (rule float_round_nonneg[OF x0])
  have "?x \<le> of_int 1" using x1 by simp
  then have "?q \<le> of_int 1" by (intro float_round_le) simp_all
  then have "?q * 100 < 2 powi (6 + 1)" by (simp add: power_int_def)
  moreover from q0 have "0 \<le> ?q * 100" by simp
  ultimately have "\<bar>float_round (?q * 100) - ?q * 100\<bar> \<le> 2 powi (6 - 53)"
    by (intro float_round_error)
  also have "(2::rat) powi (6 - 53) = 1 / 2 ^ 47"
    by (simp add: power_int_def power_one_over)
  finally have e2: "\<bar>float_round (?q * 100) - ?q * 100\<bar> \<le> 1 / 2 ^ 47" .
  have "float_round (?q * 100) - 100 * ?x = (float_round (?q * 100) - ?q * 100) + 100 * (?q - ?x)"
    by simp
  also have "\<bar>\<dots>\<bar> \<le> \<bar>float_round (?q * 100) - ?q * 100\<bar> + \<bar>100 * (?q - ?x)\<bar>"
    by (rule abs_triangle_ineq)
  also have "\<dots> \<le> 1 / 2 ^ 47 + 100 * (1 / 2 ^ 53)"
  proof -
    have "\<bar>100 * (?q - ?x)\<bar> = \<bar>100\<bar> * \<bar>?q - ?x\<bar>" by (rule abs_mult)
    also have "\<dots> = 100 * \<bar>?q - ?x\<bar>" by simp
    also have "\<dots> \<le> 100 * (1 / 2 ^ 53)" using e1 by (intro mult_left_mono) simp_all
    finally show ?thesis using e2 by (intro add_mono)
  qed
  also have "\<dots> \<le> 1 / 2 ^ 45" by simp
  finally show ?thesis by (simp add: algebra_simps)
qed

lemma truediv_zero: "truediv w 0 = Inl ZeroDivisionError"
  by (simp add: truediv_def)

lemma win_rate_value_no_rows: "win_rate_value w 0 = Inr 0"
  by (simp add: win_rate_value_def)

lemma win_rate_value_rows:
  assumes "0 < n"
  shows "win_rate_value w n = Inr (float_round (float_round (of_nat w / of_nat n) * 100))"
  using assms by (simp add: win_rate_value_def truediv_def)

lemma win_rate_value_returns: "\<exists>r. win_rate_value w n = Inr r"
  by (cases "0 < n") (simp_all add: win_rate_value_rows win_rate_value_no_rows)

lemma wins_filter:
  "wins df = length (filter (\<lambda>row. row ! index_of (columns df) ''result'' = Str win_token) (rows df))"
  using getitem_mask_filter[of "column df ''result''" "\<lambda>row. row ! index_of (columns df) ''result''"
      df "\<lambda>x. x = Str win_token"]
  by (simp add: wins_def column_def)

text \<open>
  C5, as the claim states it: for every table there is a win ratio, and it is 0 when the
  table has no row. For a table with a \<^verbatim>\<open>result\<close> column and no row the quick statistics
  show no ratio at all: line 131 sends the empty table to the message of line 159.
\<close>

theorem no_rows_no_rate:
  "''result'' \<in> set (columns no_games) \<and> length (rows no_games) = 0 \<and>
   quick_stats no_games = Inr None"
  by (simp add: quick_stats_def df_empty_def no_games_def)

text \<open>
  C5, amended. The quick statistics never raise, so no table gives a division by zero. A
  table without rows gets the message of line 159 and no metric. For a table with rows
  and a \<^verbatim>\<open>result\<close> column they show the number of rows, the number of rows whose result
  is the win token, and the win rate: the double \<^verbatim>\<open>wins / len(df) * 100\<close> printed with
  one decimal and a percent sign; that double lies between 0 and 100, within
  \<open>1 / 2 ^ 45\<close> of the exact percentage. A win, a loss and a win give 3, 2 and
  \<^verbatim>\<open>66.7%\<close>.
\<close>

theorem quick_stats_win_rate:
  "(\<exists>r. quick_stats df = Inr r) \<and>
   (df_empty df \<longrightarrow> quick_stats df = Inr None) \<and>
   (\<not> df_empty df \<and> ''result'' \<in> set (columns df) \<longrightarrow>
      wins df = length (filter (\<lambda>row. row ! index_of (columns df) ''result'' = Str win_token)
                          (rows df)) \<and>
      wins df \<le> length (rows df) \<and>
      (\<exists>rate. win_rate_value (wins df) (length (rows df)) = Inr rate \<and>
         0 \<le> rate \<and> rate \<le> 100 \<and>
         \<bar>rate - 100 * of_nat (wins df) / of_nat (length (rows df))\<bar> \<le> 1 / 2 ^ 45 \<and>
         quick_stats df =
           Inr (Some \<lparr>total_games = Count (length (rows df)),
                      win_count = Count (wins df),
                      win_rate = Text (format_1f rate @ ''%''),
                      season_count =
                        (if ''season'' \<in> set (columns df)
                         then Count (length (unique (dropna (column df ''season''))))
                         else Text ''N/A'')\<rparr>)))"
proof -
  have le: "wins df \<le> length (rows df)"
    by (simp add: wins_filter)
  have returns: "\<exists>r. quick_stats df = Inr r"
    using win_rate_value_returns[of "wins df" "length (rows df)"]
    by (auto simp add: quick_stats_def)
  have none: "quick_stats df = Inr None" if "df_empty df"
    using that by (simp add: quick_stats_def)
  have some: "wins df = length (filter (\<lambda>row. row ! index_of (columns df) ''result'' = Str win_token)
                          (rows df)) \<and>
      wins df \<le> length (rows df) \<and>
      (\<exists>rate. win_rate_value (wins df) (length (rows df)) = Inr rate \<and>
         0 \<le> rate \<and> rate \<le> 100 \<and>
         \<bar>rate - 100 * of_nat (wins df) / of_nat (length (rows df))\<bar> \<le> 1 / 2 ^ 45 \<and>
         quick_stats df =
           Inr (Some \<lparr>total_games = Count (length (rows df)),
                      win_count = Count (wins df),
                      win_rate = Text (format_1f rate @ ''%''),
                      season_count =
                        (if ''season'' \<in> set (columns df)
                         then Count (length (unique (dropna (column df ''season''))))
                         else Text ''N/A'')\<rparr>))"
    if h: "\<not> df_empty df \<and> ''result'' \<in> set (columns df)"
  proof -
    let ?rate = "float_round (float_round (of_nat (wins df) / of_nat (length (rows df))) * 100)"
    from h have n: "0 < length (rows df)"
      by (simp add: df_empty_def)
    have v: "win_rate_value (wins df) (length (rows df)) = Inr ?rate"
      by (rule win_rate_value_rows[OF n])
    from h v have "quick_stats df =
           Inr (Some \<lparr>total_games = Count (length (rows df)),
                      win_count = Count (wins df),
                      win_rate = Text (format_1f ?rate @ ''%''),
                      season_count =
                        (if ''season'' \<in> set (columns df)
                         then Count (length (unique (dropna (column df ''season''))))
                         else Text ''N/A'')\<rparr>)"
      by (simp add: quick_stats_def)
    with v le percentage_bounds[OF le] percentage_error[OF le n] wins_filter[of df]
    show ?thesis
      by (intro conjI exI[of _ ?rate]) simp_all
  qed
  from returns none some show ?thesis
    by blast
qed

theorem quick_stats_win_rate_witness:
  "\<not> df_empty three_games \<and> ''result'' \<in> set (columns three_games) \<and>
   win_rate_value 2 3 = Inr (2345624805922133 / 35184372088832) \<and>
   quick_stats three_games =
     Inr (Some \<lparr>total_games = Count 3, win_count = Count 2, win_rate = Text ''66.7%'',
                season_count = Text ''N/A''\<rparr>)"
proof -
  have a: "\<not> df_empty three_games \<and> ''result'' \<in> set (columns three_games)"
    by (simp add: df_empty_def three_games_def)
  have w: "wins three_games = 2"
    by code_simp
  have n: "length (rows three_games) = 3"
    by (simp add: three_games_def)
  have v: "win_rate_value 2 3 = Inr (2345624805922133 / 35184372088832)"
    by code_simp
  have r: "format_1f (2345624805922133 / 35184372088832) = ''66.7''"
    by code_simp
  have s: "''season'' \<notin> set (columns three_games)"
    by (simp add: three_games_def)
  from quick_stats_win_rate[of three_games] a obtain rate
    where e: "win_rate_value (wins three_games) (length (rows three_games)) = Inr rate"
      and q: "quick_stats three_games =
           Inr (Some \<lparr>total_games = Count (length (rows three_games)),
                      win_count = Count (wins three_games),
                      win_rate = Text (format_1f rate @ ''%''),
                      season_count =
                        (if ''season'' \<in> set (columns three_games)
                         then Count (length (unique (dropna (column three_games ''season''))))
                         else Text ''N/A'')\<rparr>)"
    by blast
  have rt: "2345624805922133 / 35184372088832 = rate"
    using e[unfolded w n v] by (simp only: sum.inject)
  have fr: "format_1f rate = ''66.7''"
    by (rule r[unfolded rt])
  from q have "quick_stats three_games =
     Inr (Some \<lparr>total_games = Count 3, win_count = Count 2, win_rate = Text ''66.7%'',
                season_count = Text ''N/A''\<rparr>)"
    by (simp add: w n s fr)
  with a v show ?thesis
    by (simp only: simp_thms)
qed

section \<open>Properties of the loaders\<close>

lemma index_of_less: "x \<in> set xs \<Longrightarrow> index_of xs x < length xs"
  by (induction xs) auto

lemma nth_index_of: "x \<in> set xs \<Longrightarrow> xs ! index_of xs x = x"
  by (induction xs) auto

lemma index_of_inject:
  assumes "x \<in> set xs" and "y \<in> set xs" and "index_of xs x = index_of xs y"
  shows "x = y"
proof -
  have "x = xs ! index_of xs x" by (rule nth_index_of[OF assms(1), symmetric])
  also have "\<dots> = xs ! index_of xs y" by (simp only: assms(3))
  also have "\<dots> = y" by (rule nth_index_of[OF assms(2)])
  finally show ?thesis .
qed

lemma names_Some: "names ls = Some cs \<longleftrightarrow> ls = map Name cs"
proof (induction ls arbitrary: cs)
  case Nil
  show ?case by auto
next
  case (Cons l ls)
  show ?case
    by (cases l) (auto simp add: Cons.IH)
qed

lemma names_None: "names ls = None \<longleftrightarrow> (\<exists>x. Scalar x \<in> set ls)"
proof (induction ls)
  case Nil
  show ?case by simp
next
  case (Cons l ls)
  show ?case
    by (cases l) (auto simp add: Cons.IH)
qed

lemma needed_not_unnamed: "col \<in> set COLUMNS \<Longrightarrow> \<not> prefix ''Unnamed'' col"
  by (auto simp add: COLUMNS_def)

lemma date_needed: "''date'' \<in> set (needed_cols raw) \<longleftrightarrow> Name ''date'' \<in> set (labels raw)"
  by (simp add: needed_cols_def COLUMNS_def)

lemma getitem_needed:
  "getitem_names raw (needed_cols raw) =
     Inr \<lparr>columns = needed_cols raw,
          dtypes = map (\<lambda>c. label_dtypes raw ! index_of (labels raw) (Name c)) (needed_cols raw),
          rows = map (\<lambda>row. map (\<lambda>c. row ! index_of (labels raw) (Name c)) (needed_cols raw))
                   (records raw)\<rparr>"
proof -
  have "Name ` set (needed_cols raw) \<subseteq> set (labels raw)"
    by (auto simp add: needed_cols_def)
  then show ?thesis
    by (simp add: getitem_names_def)
qed

lemma column_needed:
  assumes "col \<in> set cols"
  shows "column \<lparr>columns = cols, dtypes = ds,
            rows = map (\<lambda>row. map (\<lambda>c. row ! index_of ls (Name c)) cols) rs\<rparr> col =
         map (\<lambda>row. row ! index_of ls (Name col)) rs"
  using assms by (simp add: column_def index_of_less nth_index_of)

lemma to_datetime_cell:
  assumes "col \<in> set cols" and "''date'' \<in> set cols" and "k < length rs"
    and "to_datetime lib \<lparr>columns = cols, dtypes = ds,
            rows = map (\<lambda>row. map (\<lambda>c. row ! index_of ls (Name c)) cols) rs\<rparr> ''date'' = Inr df"
    and "to_datetime_coerce lib (map (\<lambda>row. row ! index_of ls (Name ''date'')) rs) =
           Inr (dtype, parse)"
  shows "rows df ! k ! index_of cols col =
         (if col = ''date''
          then (case parse (rs ! k ! index_of ls (Name col)) of
                  Some t \<Rightarrow> Timestamp t | None \<Rightarrow> NaT)
          else rs ! k ! index_of ls (Name col))"
proof -
  let ?needed = "\<lparr>columns = cols, dtypes = ds,
            rows = map (\<lambda>row. map (\<lambda>c. row ! index_of ls (Name c)) cols) rs\<rparr>"
  from assms(5) have "to_datetime_coerce lib (column ?needed ''date'') = Inr (dtype, parse)"
    by (simp only: column_needed[OF assms(2)])
  with assms(4) have df: "df = ?needed\<lparr>dtypes := ds[index_of cols ''date'' := dtype],
      rows := map (\<lambda>row. row[index_of cols ''date'' :=
                (case parse (row ! index_of cols ''date'') of
                   Some t \<Rightarrow> Timestamp t | None \<Rightarrow> NaT)])
              (rows ?needed)\<rparr>"
    by (simp add: to_datetime_def)
  show ?thesis
  proof (cases "col = ''date''")
    case True
    with assms(1-3) show ?thesis
      by (simp add: df index_of_less nth_index_of)
  next
    case False
    with index_of_inject[OF assms(1,2)] have "index_of cols ''date'' \<noteq> index_of cols col"
      by auto
    with assms(1-3) False show ?thesis
      by (simp add: df index_of_less nth_index_of)
  qed
qed

lemma load_player_data_fetched:
  assumes "key \<noteq> []" and "get_gspread_client sv = Inr (Some c, ns)"
    and "fetch sv c key ws = Inr raw"
  shows "load_player_data sv key ws =
         (case drop_unnamed (dropna_all raw) of
            Inl e \<Rightarrow> Inr (DataFrame, ns @ [LoadError e])
          | Inr df \<Rightarrow> Inr (df, ns))"
  using assms by (simp add: load_player_data_def)

lemma load_summary_data_fetched:
  assumes "key \<noteq> []" and "get_gspread_client_summary sv = Inr (Some c, ns)"
    and "fetch sv c key WORKSHEET_NAME = Inr raw" and "\<not> sheet_empty raw"
  shows "load_summary_data lib sv (Some key) =
         (let needed = \<lparr>columns = needed_cols raw,
                 dtypes = map (\<lambda>col. label_dtypes raw ! index_of (labels raw) (Name col))
                            (needed_cols raw),
                 rows = map (\<lambda>row. map (\<lambda>col. row ! index_of (labels raw) (Name col))
                                     (needed_cols raw))
                          (records raw)\<rparr>
          in if ''date'' \<in> set (needed_cols raw) then
               (case to_datetime lib needed ''date'' of
                  Inl e \<Rightarrow> Inr (DataFrame, ns)
                | Inr dated \<Rightarrow> Inr (dated, ns))
             else Inr (needed, ns))"
  using assms by (simp add: load_summary_data_def getitem_needed Let_def)

text \<open>
  C3, as the claim states it: every loader drops the rows without content and turns a
  date column into dates. On a sheet with a row without content the loader of the front
  page returns that row (second of three), and the loader of the search page returns the
  \<^verbatim>\<open>date\<close> column as the texts it fetched.
\<close>

theorem loaders_differ:
  "load_summary_data calendar_lib (online dated_sheet) (Some ''key'') =
     Inr (\<lparr>columns = [''date'', ''result''], dtypes = [''datetime64[ns]'', ''object''],
           rows = [[Timestamp 1704412800000000000, Str win_token], [NaT, NaN],
                   [NaT, Str lose_token]]\<rparr>, []) \<and>
   load_player_data (online dated_sheet) ''key'' ''Sheet1'' =
     Inr (\<lparr>columns = [''date'', ''result''], dtypes = [''object'', ''object''],
           rows = [[Str ''2024-01-05'', Str win_token], [Str ''soon'', Str lose_token]]\<rparr>, [])"
  by code_simp

text \<open>
  C3, amended. Take a table fetched with success.

  The loader of the search page: when every label is a text, it returns the columns whose
  label does not start with \<^verbatim>\<open>Unnamed\<close> and, restricted to them, the rows that had a cell
  with content when fetched, every cell as it is; no column is turned into dates. When
  some label is no text, the selection of the columns raises, and the loader returns the
  empty table and shows the error.

  The loader of the front page, for a fetched table that is not empty: it keeps the
  columns of the fixed list that the table has, in the order of the list (none starts
  with \<^verbatim>\<open>Unnamed\<close>), and every row, also one without content. Without a \<^verbatim>\<open>date\<close> column
  every cell is as fetched. With one, \<^verbatim>\<open>pd.to_datetime\<close> is applied to the column as a
  whole: when it returns, each cell of \<^verbatim>\<open>date\<close> is the timestamp it read or, for a cell it
  could not read, the missing value \<open>NaT\<close>, and every other cell is as fetched; when it
  raises, the loader returns the empty table and shows nothing.
\<close>

theorem loaders_normalize:
  assumes "key \<noteq> []" and "fetch sv c key ws = Inr raw"
  shows "(get_gspread_client sv = Inr (Some c, ns) \<longrightarrow>
            (\<forall>cs. names (labels raw) = Some cs \<longrightarrow>
               (\<exists>df. load_player_data sv key ws = Inr (df, ns) \<and>
                  columns df = filter (\<lambda>col. \<not> prefix ''Unnamed'' col) cs \<and>
                  rows df = map (keep_labels (\<lambda>col. \<not> prefix ''Unnamed'' col) cs)
                              (filter (\<lambda>row. \<not> list_all isna row) (records raw)))) \<and>
            (names (labels raw) = None \<longrightarrow>
               (\<exists>e. load_player_data sv key ws = Inr (DataFrame, ns @ [LoadError e])))) \<and>
         (get_gspread_client_summary sv = Inr (Some c, ns) \<and> ws = WORKSHEET_NAME \<and>
          \<not> sheet_empty raw \<and> distinct (labels raw) \<longrightarrow>
            (\<forall>dtype parse.
               Name ''date'' \<in> set (labels raw) \<longrightarrow>
               to_datetime_coerce lib
                 (map (\<lambda>row. row ! index_of (labels raw) (Name ''date'')) (records raw)) =
                 Inr (dtype, parse) \<longrightarrow>
               (\<exists>df. load_summary_data lib sv (Some key) = Inr (df, ns) \<and>
                  columns df = filter (\<lambda>col. Name col \<in> set (labels raw)) COLUMNS \<and>
                  (\<forall>col\<in>set (columns df). \<not> prefix ''Unnamed'' col) \<and>
                  length (rows df) = length (records raw) \<and>
                  (\<forall>k<length (records raw). \<forall>col\<in>set (columns df).
                     rows df ! k ! index_of (columns df) col =
                       (if col = ''date''
                        then (case parse (records raw ! k ! index_of (labels raw) (Name col)) of
                                Some t \<Rightarrow> Timestamp t | None \<Rightarrow> NaT)
                        else records raw ! k ! index_of (labels raw) (Name col))))) \<and>
            (\<forall>e. Name ''date'' \<in> set (labels raw) \<longrightarrow>
               to_datetime_coerce lib
                 (map (\<lambda>row. row ! index_of (labels raw) (Name ''date'')) (records raw)) = Inl e \<longrightarrow>
               load_summary_data lib sv (Some key) = Inr (DataFrame, ns)) \<and>
            (Name ''date'' \<notin> set (labels raw) \<longrightarrow>
               (\<exists>df. load_summary_data lib sv (Some key) = Inr (df, ns) \<and>
                  columns df = filter (\<lambda>col. Name col \<in> set (labels raw)) COLUMNS \<and>
                  (\<forall>col\<in>set (columns df). \<not> prefix ''Unnamed'' col) \<and>
                  length (rows df) = length (records raw) \<and>
                  (\<forall>k<length (records raw). \<forall>col\<in>set (columns df).
                     rows df ! k ! index_of (columns df) col =
                       records raw ! k ! index_of (labels raw) (Name col)))))"
proof -
  let ?cols = "needed_cols raw"
  let ?date = "map (\<lambda>row. row ! index_of (labels raw) (Name ''date'')) (records raw)"
  let ?needed = "\<lparr>columns = ?cols,
                   dtypes = map (\<lambda>col. label_dtypes raw ! index_of (labels raw) (Name col)) ?cols,
                   rows = map (\<lambda>row. map (\<lambda>col. row ! index_of (labels raw) (Name col)) ?cols)
                            (records raw)\<rparr>"
  have cols: "?cols = filter (\<lambda>col. Name col \<in> set (labels raw)) COLUMNS"
    by (simp add: needed_cols_def)
  have unnamed: "\<forall>col\<in>set ?cols. \<not> prefix ''Unnamed'' col"
    using needed_not_unnamed by (simp add: needed_cols_def)
  have player1: "\<exists>df. load_player_data sv key ws = Inr (df, ns) \<and>
                  columns df = filter (\<lambda>col. \<not> prefix ''Unnamed'' col) cs \<and>
                  rows df = map (keep_labels (\<lambda>col. \<not> prefix ''Unnamed'' col) cs)
                              (filter (\<lambda>row. \<not> list_all isna row) (records raw))"
    if "get_gspread_client sv = Inr (Some c, ns)" and "names (labels raw) = Some cs" for cs
    using load_player_data_fetched[OF assms(1) that(1) assms(2)] that(2)
    by (simp add: drop_unnamed_def dropna_all_def)
  have player2: "\<exists>e. load_player_data sv key ws = Inr (DataFrame, ns @ [LoadError e])"
    if "get_gspread_client sv = Inr (Some c, ns)" and "names (labels raw) = None"
    using load_player_data_fetched[OF assms(1) that(1) assms(2)] that(2)
    by (simp add: drop_unnamed_def dropna_all_def)
  have summary1: "\<exists>df. load_summary_data lib sv (Some key) = Inr (df, ns) \<and>
                  columns df = filter (\<lambda>col. Name col \<in> set (labels raw)) COLUMNS \<and>
                  (\<forall>col\<in>set (columns df). \<not> prefix ''Unnamed'' col) \<and>
                  length (rows df) = length (records raw) \<and>
                  (\<forall>k<length (records raw). \<forall>col\<in>set (columns df).
                     rows df ! k ! index_of (columns df) col =
                       (if col = ''date''
                        then (case parse (records raw ! k ! index_of (labels raw) (Name col)) of
                                Some t \<Rightarrow> Timestamp t | None \<Rightarrow> NaT)
                        else records raw ! k ! index_of (labels raw) (Name col)))"
    if h: "get_gspread_client_summary sv = Inr (Some c, ns)" "ws = WORKSHEET_NAME"
          "\<not> sheet_empty raw"
      and d: "Name ''date'' \<in> set (labels raw)"
      and p: "to_datetime_coerce lib ?date = Inr (dtype, parse)" for dtype parse
  proof -
    from d have dn: "''date'' \<in> set ?cols" by (simp add: date_needed)
    from p have "to_datetime_coerce lib (column ?needed ''date'') = Inr (dtype, parse)"
      by (simp only: column_needed[OF dn])
    then obtain df where df: "to_datetime lib ?needed ''date'' = Inr df"
      and c: "columns df = ?cols" and l: "length (rows df) = length (records raw)"
      by (simp add: to_datetime_def)
    from h assms dn df have run: "load_summary_data lib sv (Some key) = Inr (df, ns)"
      by (simp add: load_summary_data_fetched Let_def)
    have cell: "rows df ! k ! index_of ?cols col =
        (if col = ''date''
         then (case parse (records raw ! k ! index_of (labels raw) (Name col)) of
                 Some t \<Rightarrow> Timestamp t | None \<Rightarrow> NaT)
         else records raw ! k ! index_of (labels raw) (Name col))"
      if "k < length (records raw)" and "col \<in> set ?cols" for k col
      by (rule to_datetime_cell[OF that(2) dn that(1) df p])
    from run c l unnamed cell show ?thesis
      by (intro exI[of _ df]) (simp add: cols[symmetric])
  qed
  have summary2: "load_summary_data lib sv (Some key) = Inr (DataFrame, ns)"
    if h: "get_gspread_client_summary sv = Inr (Some c, ns)" "ws = WORKSHEET_NAME"
          "\<not> sheet_empty raw"
      and d: "Name ''date'' \<in> set (labels raw)"
      and p: "to_datetime_coerce lib ?date = Inl e" for e
  proof -
    from d have dn: "''date'' \<in> set ?cols" by (simp add: date_needed)
    from p have "to_datetime_coerce lib (column ?needed ''date'') = Inl e"
      by (simp only: column_needed[OF dn])
    then have "to_datetime lib ?needed ''date'' = Inl e"
      by (simp add: to_datetime_def)
    with h assms dn show ?thesis
      by (simp add: load_summary_data_fetched Let_def)
  qed
  have summary3: "\<exists>df. load_summary_data lib sv (Some key) = Inr (df, ns) \<and>
                  columns df = filter (\<lambda>col. Name col \<in> set (labels raw)) COLUMNS \<and>
                  (\<forall>col\<in>set (columns df). \<not> prefix ''Unnamed'' col) \<and>
                  length (rows df) = length (records raw) \<and>
                  (\<forall>k<length (records raw). \<forall>col\<in>set (columns df).
                     rows df ! k ! index_of (columns df) col =
                       records raw ! k ! index_of (labels raw) (Name col))"
    if h: "get_gspread_client_summary sv = Inr (Some c, ns)" "ws = WORKSHEET_NAME"
          "\<not> sheet_empty raw"
      and d: "Name ''date'' \<notin> set (labels raw)"
  proof -
    from d have dn: "''date'' \<notin> set ?cols" by (simp add: date_needed)
    from h assms dn have run: "load_summary_data lib sv (Some key) = Inr (?needed, ns)"
      by (simp add: load_summary_data_fetched Let_def)
    have cell: "rows ?needed ! k ! index_of ?cols col =
        records raw ! k ! index_of (labels raw) (Name col)"
      if "k < length (records raw)" and "col \<in> set ?cols" for k col
      using that by (simp add: index_of_less nth_index_of)
    from run unnamed cell show ?thesis
      by (intro exI[of _ ?needed]) (simp add: cols[symmetric])
  qed
  from player1 player2 summary1 summary2 summary3 show ?thesis
    by blast
qed


theorem loaders_normalize_witness:
  "fetch (online dated_sheet) (Client FromInfo) ''key'' WORKSHEET_NAME = Inr dated_sheet \<and>
   get_gspread_client (online dated_sheet) = Inr (Some (Client FromInfo), []) \<and>
   get_gspread_client_summary (online dated_sheet) = Inr (Some (Client FromInfo), []) \<and>
   names (labels dated_sheet) = Some [''date'', ''Unnamed: 1'', ''result''] \<and>
   \<not> sheet_empty dated_sheet \<and> distinct (labels dated_sheet) \<and>
   Name ''date'' \<in> set (labels dated_sheet) \<and>
   (\<exists>parse. to_datetime_coerce calendar_lib [Str ''2024-01-05'', NaN, Str ''soon''] =
        Inr (''datetime64[ns]'', parse) \<and>
      parse (Str ''2024-01-05'') = Some 1704412800000000000 \<and> parse NaN = None \<and>
      parse (Str ''soon'') = None) \<and>
   load_player_data (online dated_sheet) ''key'' WORKSHEET_NAME =
     Inr (\<lparr>columns = [''date'', ''result''], dtypes = [''object'', ''object''],
           rows = [[Str ''2024-01-05'', Str win_token], [Str ''soon'', Str lose_token]]\<rparr>, []) \<and>
   load_summary_data calendar_lib (online dated_sheet) (Some ''key'') =
     Inr (\<lparr>columns = [''date'', ''result''], dtypes = [''datetime64[ns]'', ''object''],
           rows = [[Timestamp 1704412800000000000, Str win_token], [NaT, NaN],
                   [NaT, Str lose_token]]\<rparr>, []) \<and>
   to_datetime_coerce strict_lib [Str ''2024-01-05'', NaN, Str ''soon''] = Inl TypeError \<and>
   load_summary_data strict_lib (online dated_sheet) (Some ''key'') = Inr (DataFrame, []) \<and>
   names (labels yearly_sheet) = None \<and> Name ''date'' \<notin> set (labels yearly_sheet) \<and>
   \<not> sheet_empty yearly_sheet \<and> distinct (labels yearly_sheet) \<and>
   load_player_data (online yearly_sheet) ''key'' WORKSHEET_NAME =
     Inr (DataFrame, [LoadError TypeError]) \<and>
   load_summary_data calendar_lib (online yearly_sheet) (Some ''key'') =
     Inr (\<lparr>columns = [], dtypes = [], rows = [[]]\<rparr>, [])"
proof -
  have k: "''key'' \<noteq> []" by simp
  have f: "fetch (online sheet) (Client FromInfo) ''key'' WORKSHEET_NAME = Inr sheet"
    for sheet :: "nat sheet_frame"
    by (simp add: online_def)
  have p: "get_gspread_client (online sheet) = Inr (Some (Client FromInfo), [])"
    for sheet :: "nat sheet_frame"
    by (simp add: get_gspread_client_def use_streamlit_secrets_def connect_def online_def)
  have s: "get_gspread_client_summary (online sheet) = Inr (Some (Client FromInfo), [])"
    for sheet :: "nat sheet_frame"
    by (simp add: get_gspread_client_summary_def use_streamlit_secrets_def connect_def
        online_def)
  have n: "names (labels dated_sheet) = Some [''date'', ''Unnamed: 1'', ''result'']"
    by (simp add: dated_sheet_def)
  have e: "\<not> sheet_empty dated_sheet"
    by (simp add: sheet_empty_def dated_sheet_def)
  have d: "distinct (labels dated_sheet)"
    by (simp add: dated_sheet_def)
  have m: "Name ''date'' \<in> set (labels dated_sheet)"
    by (simp add: dated_sheet_def)
  have col: "map (\<lambda>row. row ! index_of (labels dated_sheet) (Name ''date''))
               (records dated_sheet) = [Str ''2024-01-05'', NaN, Str ''soon'']"
    by (simp add: dated_sheet_def)
  have c: "to_datetime_coerce calendar_lib [Str ''2024-01-05'', NaN, Str ''soon''] =
      Inr (''datetime64[ns]'',
        \<lambda>c. if c = Str ''2024-01-05'' then Some 1704412800000000000 else None)"
    by (simp add: calendar_lib_def)
  have x: "to_datetime_coerce strict_lib [Str ''2024-01-05'', NaN, Str ''soon''] = Inl TypeError"
    by (simp add: strict_lib_def)
  have n': "names (labels yearly_sheet) = None"
    by (simp add: yearly_sheet_def)
  have e': "\<not> sheet_empty yearly_sheet"
    by (simp add: sheet_empty_def yearly_sheet_def)
  have d': "distinct (labels yearly_sheet)"
    by (simp add: yearly_sheet_def)
  have m': "Name ''date'' \<notin> set (labels yearly_sheet)"
    by (simp add: yearly_sheet_def)
  have run1: "load_player_data (online dated_sheet) ''key'' WORKSHEET_NAME =
     Inr (\<lparr>columns = [''date'', ''result''], dtypes = [''object'', ''object''],
           rows = [[Str ''2024-01-05'', Str win_token], [Str ''soon'', Str lose_token]]\<rparr>, [])"
    by code_simp
  have run2: "load_summary_data calendar_lib (online dated_sheet) (Some ''key'') =
     Inr (\<lparr>columns = [''date'', ''result''], dtypes = [''datetime64[ns]'', ''object''],
           rows = [[Timestamp 1704412800000000000, Str win_token], [NaT, NaN],
                   [NaT, Str lose_token]]\<rparr>, [])"
    by code_simp
  have run3: "load_player_data (online yearly_sheet) ''key'' WORKSHEET_NAME =
     Inr (DataFrame, [LoadError TypeError])"
    by code_simp
  have run4: "load_summary_data calendar_lib (online yearly_sheet) (Some ''key'') =
     Inr (\<lparr>columns = [], dtypes = [], rows = [[]]\<rparr>, [])"
    by code_simp
  from loaders_normalize[OF k f, of dated_sheet "[]" strict_lib] s e d m x[folded col]
  have "load_summary_data strict_lib (online dated_sheet) (Some ''key'') = Inr (DataFrame, [])"
    by blast
  moreover from loaders_normalize[OF k f, of yearly_sheet "[]" calendar_lib] p n'
  have "\<exists>e. load_player_data (online yearly_sheet) ''key'' WORKSHEET_NAME =
          Inr (DataFrame, [] @ [LoadError e])"
    by blast
  moreover from loaders_normalize[OF k f, of dated_sheet "[]" calendar_lib] p n
  have "\<exists>df. load_player_data (online dated_sheet) ''key'' WORKSHEET_NAME = Inr (df, []) \<and>
          columns df = filter (\<lambda>col. \<not> prefix ''Unnamed'' col)
                         [''date'', ''Unnamed: 1'', ''result'']"
    by blast
  ultimately show ?thesis
    using f p s n e d m c x n' m' e' d' run1 run2 run3 run4 by simp
qed

lemma load_player_data_no_key: "load_player_data sv [] ws = Inr (DataFrame, [])"
  by (simp add: load_player_data_def)

lemma load_summary_data_no_key:
  "load_summary_data lib sv None = Inr (DataFrame, [])"
  "load_summary_data lib sv (Some []) = Inr (DataFrame, [])"
  by (simp_all add: load_summary_data_def)

lemma get_gspread_client_raises:
  "get_gspread_client sv = Inl e \<longleftrightarrow>
     use_streamlit_secrets sv = Inl e \<or>
     use_streamlit_secrets sv = Inr True \<and> service_account_info sv = Inl e"
  by (auto simp add: get_gspread_client_def connect_def split: sum.splits if_splits)

lemma load_player_data_degrades:
  assumes "load_player_data sv key ws = Inr (df, ns)"
    and "key = [] \<or> (\<exists>ms. get_gspread_client sv = Inr (None, ms)) \<or>
         (\<exists>c ms e. get_gspread_client sv = Inr (Some c, ms) \<and> fetch sv c key ws = Inl e) \<or>
         (\<exists>c ms raw x. get_gspread_client sv = Inr (Some c, ms) \<and>
            fetch sv c key ws = Inr raw \<and> Scalar x \<in> set (labels raw))"
  shows "df = DataFrame"
proof -
  have "drop_unnamed (dropna_all raw) = Inl TypeError \<or>
        drop_unnamed (dropna_all raw) = Inl AttributeError"
    if "Scalar x \<in> set (labels raw)" for raw :: "'a sheet_frame" and x
  proof -
    from that have "names (labels raw) = None"
      by (auto simp add: names_None)
    then show ?thesis
      by (simp add: drop_unnamed_def dropna_all_def)
  qed
  with assms show ?thesis
    by (fastforce simp add: load_player_data_def
        split: if_splits sum.splits option.splits prod.splits)
qed

lemma load_player_data_raises:
  "load_player_data sv key ws = Inl e \<longleftrightarrow> key \<noteq> [] \<and> get_gspread_client sv = Inl e"
  by (auto simp add: load_player_data_def split: sum.splits option.splits prod.splits)

lemma load_summary_data_raises:
  "load_summary_data lib sv k = Inl e \<longleftrightarrow>
     (\<exists>key. k = Some key \<and> key \<noteq> [] \<and> get_gspread_client_summary sv = Inl e)"
  by (auto simp add: load_summary_data_def split: sum.splits option.splits prod.splits)

text \<open>
  C7. The claim: no failure leaves a loader as an exception. With secrets whose service
  account entry is malformed, \<^verbatim>\<open>Credentials.from_service_account_info\<close> raises in
  \<^verbatim>\<open>get_gspread_client\<close>, outside the \<^verbatim>\<open>try\<close> blocks of both loaders, and the exception
  leaves \<^verbatim>\<open>load_player_data\<close> and \<^verbatim>\<open>load_summary_data\<close>.
\<close>

theorem loaders_raise_on_malformed_secret:
  "load_player_data (malformed_secret dated_sheet) ''key'' WORKSHEET_NAME = Inl ValueError \<and>
   load_summary_data calendar_lib (malformed_secret dated_sheet) (Some ''key'') = Inl ValueError"
  by code_simp

end
